theory Spec2Isabelle
  imports Main "HOL-Library.Sublist"
begin

section \<open>Python strings\<close>

text \<open>
  A Python string is a list of characters, one character for each code point, so that
  \<open>length\<close> is \<^verbatim>\<open>len\<close>. \<open>str_in p s\<close> is \<^verbatim>\<open>p in s\<close> (the substring test),
  \<open>startswith s p\<close> is \<^verbatim>\<open>s.startswith(p)\<close>, \<open>strip s\<close> is \<^verbatim>\<open>s.strip()\<close>,
  \<open>join sep xs\<close> is \<^verbatim>\<open>sep.join(xs)\<close>, \<open>take n s\<close> is the slice \<^verbatim>\<open>s[:n]\<close>, and a string is
  falsy exactly when it is empty. The white space that \<^verbatim>\<open>strip\<close> removes is the set of
  characters below 256 for which \<^verbatim>\<open>str.isspace\<close> holds.
\<close>

fun str_in :: "string \<Rightarrow> string \<Rightarrow> bool" where
  "str_in p [] = (p = [])"
| "str_in p (c # cs) = (prefix p (c # cs) \<or> str_in p cs)"

definition startswith :: "string \<Rightarrow> string \<Rightarrow> bool" where
  "startswith s p = prefix p s"

definition is_space :: "char \<Rightarrow> bool" where
  "is_space c =
     (c \<in> set [CHR 0x09, CHR 0x0A, CHR 0x0B, CHR 0x0C, CHR 0x0D, CHR 0x1C, CHR 0x1D, CHR 0x1E,
                CHR 0x1F, CHR 0x20, CHR 0x85, CHR 0xA0])"

definition strip :: "string \<Rightarrow> string" where
  "strip s = rev (dropWhile is_space (rev (dropWhile is_space s)))"

fun join :: "string \<Rightarrow> string list \<Rightarrow> string" where
  "join sep [] = []"
| "join sep [x] = x"
| "join sep (x # y # ys) = x @ sep @ join sep (y # ys)"

section \<open>The outside world: network requests and pauses\<close>

text \<open>
  The feed fetcher talks to the network through \<^verbatim>\<open>httpx.get\<close> and pauses with
  \<^verbatim>\<open>time.sleep\<close>. Both are effects, so every function of the model takes the
  history of effects performed so far (oldest first) and returns it extended.
  What a request answers is not decided by the program: it is given by an oracle
  that sees the whole history, so a server may answer differently on every attempt.
  \<open>None\<close> stands for an exception raised by the request (timeout, connection
  failure). \<open>Sleep n\<close> is \<^verbatim>\<open>time.sleep(n)\<close> for a whole number of seconds,
  \<open>SleepUniform a b\<close> is \<^verbatim>\<open>time.sleep(random.uniform(a/1000, b/1000))\<close>,
  \<open>Browser\<close> is a page load in the headless browser, \<open>Mkdir\<close> and
  \<open>WriteBytes\<close> are the two file system writes of the image cache.
\<close>

type_synonym headers = "(string \<times> string) list"

record response =
  status_code :: nat
  resp_text :: string
  final_url :: string
  content :: string

datatype event =
    Get string headers nat
  | Sleep nat
  | SleepUniform nat nat
  | Browser string nat
  | Mkdir string
  | WriteBytes string string

type_synonym history = "event list"

type_synonym network = "history \<Rightarrow> string \<Rightarrow> headers \<Rightarrow> response option"

definition httpx_get :: "network \<Rightarrow> string \<Rightarrow> nat \<Rightarrow> headers \<Rightarrow> history \<Rightarrow> response option \<times> history" where
  "httpx_get net url timeout headers h = (net h url headers, h @ [Get url headers timeout])"

definition time_sleep :: "nat \<Rightarrow> history \<Rightarrow> history" where
  "time_sleep secs h = h @ [Sleep secs]"

section \<open>Retry logic\<close>

text \<open>
  \<^verbatim>\<open>fetch_with_retry(url, headers, timeout=30, max_retries=3)\<close>: the loop
  \<^verbatim>\<open>for attempt in range(max_retries)\<close> is the recursion on \<open>attempt\<close>, which starts
  at 0; falling out of the loop returns \<open>None\<close>. A response with status 429 and an
  exception of the request take the same path: pause \<open>2 ^ (attempt + 1)\<close> seconds and
  try again, unless this was the last attempt.
\<close>

function fetch_attempts ::
  "network \<Rightarrow> string \<Rightarrow> headers \<Rightarrow> nat \<Rightarrow> nat \<Rightarrow> nat \<Rightarrow> history \<Rightarrow> response option \<times> history" where
  "fetch_attempts net url headers timeout max_retries attempt h =
     (if attempt < max_retries then
        (case httpx_get net url timeout headers h of
           (Some resp, h1) \<Rightarrow>
             if status_code resp = 429 then
               (if attempt < max_retries - 1 then
                  fetch_attempts net url headers timeout max_retries (attempt + 1)
                    (time_sleep (2 ^ (attempt + 1)) h1)
                else (None, h1))
             else (Some resp, h1)
         | (None, h1) \<Rightarrow>
             if attempt < max_retries - 1 then
               fetch_attempts net url headers timeout max_retries (attempt + 1)
                 (time_sleep (2 ^ (attempt + 1)) h1)
             else (None, h1))
      else (None, h))"
  by pat_completeness auto
termination
  by (relation "measure (\<lambda>(net, url, headers, timeout, max_retries, attempt, h). max_retries - attempt)")
     (auto simp: httpx_get_def)

declare fetch_attempts.simps [simp del]

definition fetch_with_retry ::
  "network \<Rightarrow> string \<Rightarrow> headers \<Rightarrow> nat \<Rightarrow> nat \<Rightarrow> history \<Rightarrow> response option \<times> history" where
  "fetch_with_retry net url headers timeout max_retries h =
     fetch_attempts net url headers timeout max_retries 0 h"

text \<open>
  A server that answers 429 to every request for \<open>url\<close>, whatever happened before
  and whatever the headers.
\<close>

definition always_429 :: "network \<Rightarrow> string \<Rightarrow> bool" where
  "always_429 net url =
     (\<forall>h headers. \<exists>resp. net h url headers = Some resp \<and> status_code resp = 429)"

text \<open>
  The events that \<open>n\<close> attempts against such a server add to the history, the first
  of them being attempt number \<open>attempt\<close>.
\<close>

fun rate_limited_events :: "string \<Rightarrow> headers \<Rightarrow> nat \<Rightarrow> nat \<Rightarrow> nat \<Rightarrow> nat \<Rightarrow> event list" where
  "rate_limited_events url headers timeout max_retries attempt 0 = []"
| "rate_limited_events url headers timeout max_retries attempt (Suc n) =
     Get url headers timeout #
     (if attempt < max_retries - 1 then [Sleep (2 ^ (attempt + 1))] else []) @
     rate_limited_events url headers timeout max_retries (attempt + 1) n"

section \<open>Regular expressions\<close>

text \<open>
  The fragment of Python's \<^verbatim>\<open>re\<close> that the metadata patterns use: literal text, a
  character class \<^verbatim>\<open>[...]\<close>, a greedy repetition \<^verbatim>\<open>[^...]+\<close> of a negated class, a
  non-capturing alternation \<^verbatim>\<open>(?:a|b)\<close> and one capturing group. A pattern is a
  sequence of such pieces. Matching is by backtracking: \<open>match_seq\<close> lists every way
  the pattern can match at the start of the input, in the order the backtracking
  engine tries them (longest repetition first, left alternative first), each with the
  text left over and the text captured by the group. \<^verbatim>\<open>re.search\<close> takes the first
  way at the leftmost position that has one; \<open>re_search\<close> returns its
  \<^verbatim>\<open>group(1)\<close>.
\<close>

datatype rx =
    Lit string
  | AnyOf "char list"
  | PlusNoneOf "char list"
  | Alt "rx list" "rx list"
  | Group "rx list"

fun match_rx :: "rx \<Rightarrow> string \<times> string option \<Rightarrow> (string \<times> string option) list"
  and match_seq :: "rx list \<Rightarrow> string \<times> string option \<Rightarrow> (string \<times> string option) list" where
  "match_rx (Lit l) (s, g) = (if prefix l s then [(drop (length l) s, g)] else [])"
| "match_rx (AnyOf cs) (s, g) =
     (case s of [] \<Rightarrow> [] | x # xs \<Rightarrow> if x \<in> set cs then [(xs, g)] else [])"
| "match_rx (PlusNoneOf cs) (s, g) =
     map (\<lambda>k. (drop k s, g)) (rev [1 ..< Suc (length (takeWhile (\<lambda>x. x \<notin> set cs) s))])"
| "match_rx (Alt a b) (s, g) = match_seq a (s, g) @ match_seq b (s, g)"
| "match_rx (Group r) (s, g) =
     map (\<lambda>(s', g'). (s', Some (take (length s - length s') s))) (match_seq r (s, g))"
| "match_seq [] st = [st]"
| "match_seq (r # rs) st = concat (map (match_seq rs) (match_rx r st))"

fun re_search :: "rx list \<Rightarrow> string \<Rightarrow> string option" where
  "re_search pat [] = (case match_seq pat ([], None) of [] \<Rightarrow> None | (s', g) # _ \<Rightarrow> g)"
| "re_search pat (c # cs) =
     (case match_seq pat (c # cs, None) of [] \<Rightarrow> re_search pat cs | (s', g) # _ \<Rightarrow> g)"

section \<open>Open Graph metadata enrichment\<close>

text \<open>The character class \<^verbatim>\<open>["\']\<close> of the patterns.\<close>

definition quote_chars :: "char list" where
  "quote_chars = [CHR 0x22, CHR 0x27]"

text \<open>
  \<^verbatim>\<open><meta[^>]+ATTR=["\']KEY["\'][^>]+content=["\']([^"\']+)["\']\<close>, where \<open>attr\<close>
  and \<open>key\<close> are the alternatives of \<^verbatim>\<open>ATTR\<close> and \<^verbatim>\<open>KEY\<close>,
  and its mirror image with the content attribute first.
\<close>

fun alternatives :: "string list \<Rightarrow> rx" where
  "alternatives [] = Lit []"
| "alternatives [a] = Lit a"
| "alternatives (a # b # bs) = Alt [Lit a] [alternatives (b # bs)]"

definition meta_then_content :: "string list \<Rightarrow> string list \<Rightarrow> rx list" where
  "meta_then_content attr key =
     [Lit ''<meta'', PlusNoneOf ''>'', alternatives attr, Lit ''='', AnyOf quote_chars,
      alternatives key, AnyOf quote_chars, PlusNoneOf ''>'', Lit ''content='',
      AnyOf quote_chars, Group [PlusNoneOf quote_chars], AnyOf quote_chars]"

definition content_then_meta :: "string list \<Rightarrow> string list \<Rightarrow> rx list" where
  "content_then_meta attr key =
     [Lit ''<meta'', PlusNoneOf ''>'', Lit ''content='', AnyOf quote_chars,
      Group [PlusNoneOf quote_chars], AnyOf quote_chars, PlusNoneOf ''>'',
      alternatives attr, Lit ''='', AnyOf quote_chars, alternatives key, AnyOf quote_chars]"

text \<open>
  The result dictionary of \<^verbatim>\<open>fetch_og_metadata\<close>: a key that is absent is \<open>None\<close>.
\<close>

record og_metadata =
  og_image :: "string option"
  og_description :: "string option"
  og_title :: "string option"
  og_author :: "string option"
  og_published :: "string option"

definition no_metadata :: og_metadata where
  "no_metadata = \<lparr>og_image = None, og_description = None, og_title = None,
     og_author = None, og_published = None\<rparr>"

text \<open>\<^verbatim>\<open>m = re.search(a, html); if not m: m = re.search(b, html)\<close>\<close>

definition or_else :: "'a option \<Rightarrow> 'a option \<Rightarrow> 'a option" where
  "or_else m n = (case m of Some x \<Rightarrow> Some x | None \<Rightarrow> n)"

text \<open>
  The scan of the page text. \<open>parse_date\<close> stands for
  \<^verbatim>\<open>dateparser.parse(s).isoformat()\<close> of the \<^verbatim>\<open>dateutil\<close> library, \<open>None\<close> when it
  raises (the exception is swallowed and the key stays absent).
\<close>

definition scan_meta_tags :: "(string \<Rightarrow> string option) \<Rightarrow> string \<Rightarrow> og_metadata" where
  "scan_meta_tags parse_date html =
     \<lparr>og_image =
        or_else (re_search (meta_then_content [''property''] [''og:image'']) html)
                (re_search (content_then_meta [''property''] [''og:image'']) html),
      og_description =
        map_option strip
          (or_else (re_search (meta_then_content [''property''] [''og:description'']) html)
            (or_else (re_search (content_then_meta [''property''] [''og:description'']) html)
              (re_search (meta_then_content [''name''] [''description'']) html))),
      og_title =
        map_option strip
          (or_else (re_search (meta_then_content [''property''] [''og:title'']) html)
                   (re_search (content_then_meta [''property''] [''og:title'']) html)),
      og_author =
        map_option strip
          (re_search (meta_then_content [''property'', ''name''] [''article:author'', ''author'']) html),
      og_published =
        (case re_search (meta_then_content [''property''] [''article:published_time'']) html of
           None \<Rightarrow> None
         | Some d \<Rightarrow> parse_date d)\<rparr>"

section \<open>What the libraries and the machine provide\<close>

text \<open>
  The program reaches the network, a headless browser, the file system and three
  parsing libraries. None of them is part of the repository, so each is a field of
  the environment:
  \<^item> \<open>net\<close>: the answer to an HTTP request, given the history;
  \<^item> \<open>playwright_installed\<close> and \<open>browser_renders\<close>: whether the Playwright
    import succeeds, and the rendered HTML of a page (\<open>None\<close> when navigation raises);
  \<^item> \<open>bs4_available\<close>: the flag \<^verbatim>\<open>BS4_AVAILABLE\<close>;
  \<^item> \<open>soup_view_of\<close>: the outcome of steps 1 to 4 of \<^verbatim>\<open>extract_article_text\<close>
    (BeautifulSoup parses the page, junk tags and noise containers are decomposed,
    the article container is found and its tags and attributes are cleaned), as the
    three things step 5 reads from the tree; \<open>None\<close> when any of this raises;
  \<^item> \<open>dateparser_parse\<close>: \<^verbatim>\<open>dateparser.parse(s).isoformat()\<close>, \<open>None\<close> when it raises;
  \<^item> \<open>path_exists\<close>, \<open>md5_hexdigest\<close>, \<open>path_suffix\<close>: \<^verbatim>\<open>filepath.exists()\<close>,
    \<^verbatim>\<open>hashlib.md5(url.encode()).hexdigest()\<close> and \<^verbatim>\<open>Path(urlparse(url).path).suffix\<close>;
  \<^item> \<open>utc_now\<close>: \<^verbatim>\<open>datetime.now(timezone.utc).isoformat()\<close>.
\<close>

record soup_view =
  container_html :: string
  container_text :: string
  paragraphs :: "(string \<times> string) list"

text \<open>
  \<open>container_html\<close> is \<^verbatim>\<open>str(container)\<close>, \<open>container_text\<close> is
  \<^verbatim>\<open>container.get_text(strip=True)\<close>, and \<open>paragraphs\<close> lists, for every element of
  \<^verbatim>\<open>soup.find_all('p')\<close>, the pair of \<^verbatim>\<open>str(p)\<close> and \<^verbatim>\<open>p.get_text(strip=True)\<close>.
  The paragraphs are those of the whole tree as steps 1 to 4 have left it, inside the
  container or not.
\<close>

record env =
  net :: network
  playwright_installed :: bool
  browser_renders :: "history \<Rightarrow> string \<Rightarrow> string option"
  bs4_available :: bool
  soup_view_of :: "string \<Rightarrow> soup_view option"
  dateparser_parse :: "string \<Rightarrow> string option"
  path_exists :: "history \<Rightarrow> string \<Rightarrow> bool"
  md5_hexdigest :: "string \<Rightarrow> string"
  path_suffix :: "string \<Rightarrow> string"
  utc_now :: "history \<Rightarrow> string"

section \<open>Article text extraction\<close>

text \<open>
  \<^verbatim>\<open>extract_article_text(html)\<close>, step 5: the container is accepted when its plain
  text has at least 200 characters; otherwise the paragraphs are tried, joined by a
  blank; below 200 characters again the page is rejected. Every exception ends in
  \<^verbatim>\<open>return None\<close>.
\<close>

definition extract_article_text :: "env \<Rightarrow> string \<Rightarrow> string option" where
  "extract_article_text E html =
     (if \<not> bs4_available E then None
      else case soup_view_of E html of
        None \<Rightarrow> None
      | Some soup \<Rightarrow>
          (let result_html = container_html soup;
               plain_check = container_text soup
           in if length plain_check < 200 then
                (let paras = paragraphs soup;
                     plain_check = join '' '' (map snd paras)
                 in if length plain_check < 200 then None
                    else Some (concat (map fst paras)))
              else Some result_html))"

text \<open>
  \<^verbatim>\<open>_try_playwright(url, timeout)\<close>: a missing Playwright and a failing navigation both
  end in \<open>None\<close>; only the second has loaded a page.
\<close>

definition try_playwright :: "env \<Rightarrow> string \<Rightarrow> nat \<Rightarrow> history \<Rightarrow> string option \<times> history" where
  "try_playwright E url timeout h =
     (if \<not> playwright_installed E then (None, h)
      else case browser_renders E h url of
        None \<Rightarrow> (None, h @ [Browser url timeout])
      | Some html_content \<Rightarrow>
          (case extract_article_text E html_content of
             None \<Rightarrow> (None, h @ [Browser url timeout])
           | Some text \<Rightarrow>
               if length text > 500 then (Some text, h @ [Browser url timeout])
               else (None, h @ [Browser url timeout])))"

section \<open>Paywall bypass\<close>

definition headers_standard :: headers where
  "headers_standard =
     [(''User-Agent'', ''Mozilla/5.0 (Macintosh; Intel Mac OS X 10_15_7) AppleWebKit/537.36 (KHTML, like Gecko) Chrome/120.0.0.0 Safari/537.36''),
      (''Accept'', ''text/html,application/xhtml+xml,application/xml;q=0.9,image/webp,*/*;q=0.8''),
      (''Accept-Language'', ''en-US,en;q=0.5'')]"

definition headers_google :: headers where
  "headers_google = headers_standard @ [(''Referer'', ''https://www.google.com/'')]"

definition headers_facebook :: headers where
  "headers_facebook =
     [(''User-Agent'', ''facebookexternalhit/1.1 (+http://www.facebook.com/externalhit_uatext.php)''),
      (''Referer'', ''https://www.facebook.com/'')]"

text \<open>
  The body shared by methods 1 to 5 of \<^verbatim>\<open>fetch_article_text_via_bypass\<close>:
  \<^verbatim>\<open>resp = fetch_with_retry(url, headers, timeout)\<close>, and when the status is 200,
  \<^verbatim>\<open>text = extract_article_text(resp.text)\<close>, returned \<^verbatim>\<open>if text and len(text) > 500\<close>.
  \<open>None\<close> means that the chain goes on to the next method.
\<close>

definition fetch_and_extract :: "env \<Rightarrow> string \<Rightarrow> headers \<Rightarrow> nat \<Rightarrow> history \<Rightarrow> string option \<times> history" where
  "fetch_and_extract E url headers timeout h =
     (case fetch_with_retry (net E) url headers timeout 3 h of
        (None, h1) \<Rightarrow> (None, h1)
      | (Some resp, h1) \<Rightarrow>
          if status_code resp = 200 then
            (case extract_article_text E (resp_text resp) of
               None \<Rightarrow> (None, h1)
             | Some text \<Rightarrow> if length text > 500 then (Some text, h1) else (None, h1))
          else (None, h1))"

definition fetch_article_text_via_bypass ::
  "env \<Rightarrow> string \<Rightarrow> nat \<Rightarrow> bool \<Rightarrow> history \<Rightarrow> string option \<times> history" where
  "fetch_article_text_via_bypass E url timeout prefer_playwright h =
     (if \<not> bs4_available E then (None, h)
      else case (if prefer_playwright then try_playwright E url timeout h else (None, h)) of
        (Some text, h0) \<Rightarrow> (Some text, h0)
      | (None, h0) \<Rightarrow>
      (case fetch_and_extract E url headers_standard timeout h0 of
        (Some text, h1) \<Rightarrow> (Some text, h1)
      | (None, h1) \<Rightarrow>
      (case fetch_and_extract E url headers_google timeout h1 of
        (Some text, h2) \<Rightarrow> (Some text, h2)
      | (None, h2) \<Rightarrow>
      (case fetch_and_extract E url headers_facebook timeout h2 of
        (Some text, h3) \<Rightarrow> (Some text, h3)
      | (None, h3) \<Rightarrow>
      (case fetch_and_extract E (''https://12ft.io/'' @ url) headers_standard timeout h3 of
        (Some text, h4) \<Rightarrow> (Some text, h4)
      | (None, h4) \<Rightarrow>
      (case fetch_and_extract E (''https://removepaywalls.com/'' @ url) headers_standard timeout h4 of
        (Some text, h5) \<Rightarrow> (Some text, h5)
      | (None, h5) \<Rightarrow>
          if \<not> prefer_playwright then try_playwright E url timeout h5 else (None, h5)))))))"

text \<open>
  The chain as the specification describes it: an ordered list of strategies, each
  of which takes the history and returns a body or \<open>None\<close>; the strategies are run
  in order, each on the history that the one before has left, and the first body is
  the result. \<open>retrieval_chain\<close> lists the strategies: the browser first when it is
  preferred, the direct fetch, the two referrer fetches, the two proxies, and the
  browser last when it was not preferred.
\<close>

fun first_success ::
  "(history \<Rightarrow> string option \<times> history) list \<Rightarrow> history \<Rightarrow> string option \<times> history" where
  "first_success [] h = (None, h)"
| "first_success (strategy # rest) h =
     (case strategy h of
        (Some body, h1) \<Rightarrow> (Some body, h1)
      | (None, h1) \<Rightarrow> first_success rest h1)"

definition retrieval_chain ::
  "env \<Rightarrow> string \<Rightarrow> nat \<Rightarrow> bool \<Rightarrow> (history \<Rightarrow> string option \<times> history) list" where
  "retrieval_chain E url timeout prefer_playwright =
     (if prefer_playwright then [try_playwright E url timeout] else []) @
     [fetch_and_extract E url headers_standard timeout,
      fetch_and_extract E url headers_google timeout,
      fetch_and_extract E url headers_facebook timeout,
      fetch_and_extract E (''https://12ft.io/'' @ url) headers_standard timeout,
      fetch_and_extract E (''https://removepaywalls.com/'' @ url) headers_standard timeout] @
     (if \<not> prefer_playwright then [try_playwright E url timeout] else [])"

section \<open>Fetching the metadata of a page\<close>

text \<open>The two user agents of the plain requests.\<close>

definition mac_agent :: headers where
  "mac_agent =
     [(''User-Agent'', ''Mozilla/5.0 (Macintosh; Intel Mac OS X 10_15_7) AppleWebKit/537.36'')]"

definition aggregator_agent :: headers where
  "aggregator_agent = [(''User-Agent'', ''Mozilla/5.0 (compatible; NewsAggregator/1.0)'')]"

text \<open>
  \<^verbatim>\<open>fetch_og_metadata(url, timeout=15)\<close>: a failed request gives the empty
  dictionary; otherwise the first 50000 characters of the page are scanned.
\<close>

definition fetch_og_metadata :: "env \<Rightarrow> string \<Rightarrow> nat \<Rightarrow> history \<Rightarrow> og_metadata \<times> history" where
  "fetch_og_metadata E url timeout h =
     (case httpx_get (net E) url timeout mac_agent h of
        (None, h1) \<Rightarrow> (no_metadata, h1)
      | (Some resp, h1) \<Rightarrow>
          (let html = take 50000 (resp_text resp)
           in (scan_meta_tags (dateparser_parse E) html, h1)))"

section \<open>URL resolution\<close>

text \<open>
  \<^verbatim>\<open>resolve_redirect_url(url, timeout=10)\<close>: only a URL that contains
  \<^verbatim>\<open>news.google.com\<close> is requested; the answer's final URL is returned, and the URL
  itself when the request raises.
\<close>

definition resolve_redirect_url :: "env \<Rightarrow> string \<Rightarrow> nat \<Rightarrow> history \<Rightarrow> string \<times> history" where
  "resolve_redirect_url E url timeout h =
     (if str_in ''news.google.com'' url then
        (case httpx_get (net E) url timeout mac_agent h of
           (Some resp, h1) \<Rightarrow> (final_url resp, h1)
         | (None, h1) \<Rightarrow> (url, h1))
      else (url, h))"

section \<open>Image download\<close>

text \<open>
  \<^verbatim>\<open>download_image(url, images_dir, source_slug)\<close> returns the relative path of the
  cached file. Paths are joined with a slash. The directory creation and the file
  write are taken to succeed.
\<close>

definition download_image :: "env \<Rightarrow> string \<Rightarrow> string \<Rightarrow> string \<Rightarrow> history \<Rightarrow> string option \<times> history" where
  "download_image E url images_dir source_slug h =
     (if url = [] \<or> \<not> startswith url ''http'' then (None, h)
      else
        (let dest_dir = images_dir @ ''/'' @ source_slug;
             h1 = h @ [Mkdir dest_dir];
             ext = (if take 5 (path_suffix E url) = [] then ''.jpg'' else take 5 (path_suffix E url));
             ext = (if ext \<notin> set [''.jpg'', ''.jpeg'', ''.png'', ''.gif'', ''.webp'', ''.svg'']
                    then ''.jpg'' else ext);
             filename = take 12 (md5_hexdigest E url) @ ext;
             filepath = dest_dir @ ''/'' @ filename
         in if path_exists E h1 filepath then (Some (source_slug @ ''/'' @ filename), h1)
            else case httpx_get (net E) url 15 aggregator_agent h1 of
              (None, h2) \<Rightarrow> (None, h2)
            | (Some resp, h2) \<Rightarrow>
                if status_code resp = 200 \<and> length (content resp) > 500
                then (Some (source_slug @ ''/'' @ filename), h2 @ [WriteBytes filepath (content resp)])
                else (None, h2)))"

section \<open>The store\<close>

text \<open>
  The table \<^verbatim>\<open>articles\<close>: the sixteen columns a caller can set, and the row id that
  SQLite assigns (\<^verbatim>\<open>INTEGER PRIMARY KEY AUTOINCREMENT\<close>). \<open>last_id\<close> is the counter
  that SQLite keeps for the table in \<^verbatim>\<open>sqlite_sequence\<close>. \<open>not_null\<close> and \<open>col_default\<close> are the \<^verbatim>\<open>NOT NULL\<close> and
  \<^verbatim>\<open>DEFAULT\<close> clauses of \<^verbatim>\<open>CREATE TABLE\<close>; a column without a default has the
  default \<^verbatim>\<open>NULL\<close>.
\<close>

datatype col =
    Url | Source_slug | Source_name | Category | Headline | Byline | Description
  | Article_text | Publish_date | Discovered_at | Preview_image_url | Preview_image_local
  | Image_urls | Local_image_paths | Tags | Article_section

definition all_cols :: "col list" where
  "all_cols = [Url, Source_slug, Source_name, Category, Headline, Byline, Description,
     Article_text, Publish_date, Discovered_at, Preview_image_url, Preview_image_local,
     Image_urls, Local_image_paths, Tags, Article_section]"

datatype sqlval = Null | Text string

fun not_null :: "col \<Rightarrow> bool" where
  "not_null Url = True"
| "not_null Source_slug = True"
| "not_null Source_name = True"
| "not_null Discovered_at = True"
| "not_null c = False"

fun col_default :: "col \<Rightarrow> sqlval" where
  "col_default Url = Null"
| "col_default Source_slug = Null"
| "col_default Source_name = Null"
| "col_default Publish_date = Null"
| "col_default Discovered_at = Null"
| "col_default Image_urls = Text ''[]''"
| "col_default Local_image_paths = Text ''[]''"
| "col_default Tags = Text ''[]''"
| "col_default c = Text []"

record row =
  row_id :: nat
  cells :: "col \<Rightarrow> sqlval"

record database =
  rows :: "row list"
  last_id :: nat

text \<open>\<^verbatim>\<open>url_exists(url)\<close>: \<^verbatim>\<open>SELECT 1 FROM articles WHERE url = ?\<close> finds a row.\<close>

definition url_exists :: "database \<Rightarrow> string \<Rightarrow> bool" where
  "url_exists db link = list_ex (\<lambda>r. cells r Url = Text link) (rows db)"

text \<open>
  The keyword arguments of \<^verbatim>\<open>add_article\<close> are a dictionary from column names to
  Python values: \<^verbatim>\<open>None\<close>, a string, or a list of strings. The keys are the
  columns of the table, as at both call sites; a keyword that names no column, and a
  failure of the database engine itself (a locked or full database), are not part
  of the model.
\<close>

datatype pyval = PNone | PStr string | PList "string list"

text \<open>
  \<^verbatim>\<open>json.dumps\<close> of a list of strings, with its defaults: the items are separated
  by a comma and a blank, and inside an item every character outside the range from
  the blank to the tilde is escaped, as are the quote and the backslash. The escape
  is the short form for backspace, form feed, newline, carriage return and tab, and
  \<^verbatim>\<open>\u00xx\<close> with two lower-case hexadecimal digits for the others.
\<close>

definition hex_digit :: "nat \<Rightarrow> char" where
  "hex_digit n = ''0123456789abcdef'' ! (n mod 16)"

definition json_char :: "char \<Rightarrow> string" where
  "json_char c =
     (if c = CHR 0x22 then [CHR 0x5C, CHR 0x22]
      else if c = CHR 0x5C then [CHR 0x5C, CHR 0x5C]
      else if c = CHR 0x08 then [CHR 0x5C, CHR ''b'']
      else if c = CHR 0x0C then [CHR 0x5C, CHR ''f'']
      else if c = CHR 0x0A then [CHR 0x5C, CHR ''n'']
      else if c = CHR 0x0D then [CHR 0x5C, CHR ''r'']
      else if c = CHR 0x09 then [CHR 0x5C, CHR ''t'']
      else if (of_char c :: nat) < 0x20 \<or> 0x7E < (of_char c :: nat) then
        [CHR 0x5C, CHR ''u'', CHR ''0'', CHR ''0'',
         hex_digit (of_char c div 16), hex_digit (of_char c mod 16)]
      else [c])"

definition json_string :: "string \<Rightarrow> string" where
  "json_string s = [CHR 0x22] @ concat (map json_char s) @ [CHR 0x22]"

definition json_dumps :: "string list \<Rightarrow> string" where
  "json_dumps v = ''['' @ join '', '' (map json_string v) @ '']''"

text \<open>
  \<^verbatim>\<open>INSERT OR IGNORE INTO articles (cols) VALUES (?...)\<close>. A list cannot be bound to a
  parameter: \<^verbatim>\<open>sqlite3\<close> raises before the statement runs, and \<^verbatim>\<open>add_article\<close>
  returns \<open>None\<close>. Otherwise SQLite takes the next row id, one more than the
  larger of the counter and the largest id in the table, and checks the constraints.
  A row that violates a \<^verbatim>\<open>NOT NULL\<close> or the \<^verbatim>\<open>UNIQUE\<close> constraint on \<^verbatim>\<open>url\<close> is
  ignored: no row is written, \<^verbatim>\<open>rowcount\<close> is 0 and the result is \<open>None\<close>. A row
  that passes is stored under the id, which is \<^verbatim>\<open>lastrowid\<close>. In both cases the
  counter moves on to the id that was taken.
\<close>

definition next_id :: "database \<Rightarrow> nat" where
  "next_id db = Suc (fold max (map row_id (rows db)) (last_id db))"

definition bound_value :: "(col \<rightharpoonup> pyval) \<Rightarrow> col \<Rightarrow> sqlval" where
  "bound_value kwargs c =
     (case kwargs c of
        None \<Rightarrow> col_default c
      | Some PNone \<Rightarrow> Null
      | Some (PStr s) \<Rightarrow> Text s
      | Some (PList v) \<Rightarrow> Null)"

definition is_list :: "pyval option \<Rightarrow> bool" where
  "is_list v = (case v of Some (PList l) \<Rightarrow> True | _ \<Rightarrow> False)"

definition insert_or_ignore :: "(col \<rightharpoonup> pyval) \<Rightarrow> database \<Rightarrow> nat option \<times> database" where
  "insert_or_ignore kwargs db =
     (if list_ex (\<lambda>c. is_list (kwargs c)) all_cols then (None, db)
      else if list_ex (\<lambda>c. not_null c \<and> bound_value kwargs c = Null) all_cols
        then (None, db\<lparr>last_id := next_id db\<rparr>)
      else if list_ex (\<lambda>r. cells r Url = bound_value kwargs Url) (rows db)
        then (None, db\<lparr>last_id := next_id db\<rparr>)
      else (Some (next_id db),
            db\<lparr>rows := rows db @ [\<lparr>row_id = next_id db, cells = bound_value kwargs\<rparr>],
               last_id := next_id db\<rparr>))"

definition dump_lists :: "(col \<rightharpoonup> pyval) \<Rightarrow> (col \<rightharpoonup> pyval)" where
  "dump_lists kwargs =
     (\<lambda>c. if c \<in> set [Image_urls, Local_image_paths, Tags] then
             (case kwargs c of Some (PList v) \<Rightarrow> Some (PStr (json_dumps v)) | other \<Rightarrow> other)
           else kwargs c)"

definition add_article :: "string \<Rightarrow> (col \<rightharpoonup> pyval) \<Rightarrow> database \<Rightarrow> nat option \<times> database" where
  "add_article now kwargs db =
     (let kwargs = (if kwargs Discovered_at = None then kwargs(Discovered_at \<mapsto> PStr now) else kwargs);
          kwargs = dump_lists kwargs
      in insert_or_ignore kwargs db)"

section \<open>Feed items\<close>

text \<open>
  The dictionary that \<^verbatim>\<open>fetch_feed\<close> builds for a feed entry. \<open>publish_date\<close> is
  \<^verbatim>\<open>None\<close> when the feed gives no date.
\<close>

record item =
  url :: string
  headline :: string
  description :: string
  byline :: string
  publish_date :: "string option"
  preview_image_url :: string
  tags :: "string list"

text \<open>
  \<^verbatim>\<open>fetch_feed(url, timeout=30)\<close>: the request and \<^verbatim>\<open>feedparser.parse\<close> are inside the
  \<^verbatim>\<open>try\<close>, and a failure gives the empty list. \<open>entries_of\<close> stands for the parse of
  the feed text by \<^verbatim>\<open>feedparser\<close> followed by the normalisation of each entry.
\<close>

definition fetch_feed ::
  "env \<Rightarrow> (string \<Rightarrow> item list) \<Rightarrow> string \<Rightarrow> nat \<Rightarrow> history \<Rightarrow> item list \<times> history" where
  "fetch_feed E entries_of feed_url timeout h =
     (case httpx_get (net E) feed_url timeout aggregator_agent h of
        (None, h1) \<Rightarrow> ([], h1)
      | (Some resp, h1) \<Rightarrow> (entries_of (resp_text resp), h1))"

section \<open>Source processing\<close>

text \<open>
  A source of the configuration, with the defaults of \<^verbatim>\<open>source.get\<close> applied:
  \<open>rss_urls\<close>, \<open>bypass_paywall\<close> and \<open>prefer_playwright\<close> are the keys of
  \<^verbatim>\<open>source["discovery"]\<close>.
\<close>

record source =
  slug :: string
  name :: string
  category :: string
  rss_urls :: "string list"
  bypass_paywall :: bool
  prefer_playwright :: bool

text \<open>Collect all feed items across all feeds of the source.\<close>

fun fetch_all_feeds ::
  "env \<Rightarrow> (string \<Rightarrow> item list) \<Rightarrow> string list \<Rightarrow> item list \<Rightarrow> history \<Rightarrow> item list \<times> history" where
  "fetch_all_feeds E entries_of [] all_items h = (all_items, h)"
| "fetch_all_feeds E entries_of (feed_url # rest) all_items h =
     (case fetch_feed E entries_of feed_url 30 h of
        (items, h1) \<Rightarrow> fetch_all_feeds E entries_of rest (all_items @ items) h1)"

text \<open>Deduplicate by URL: the loop over \<^verbatim>\<open>all_items\<close> with the set \<^verbatim>\<open>seen\<close>.\<close>

fun deduplicate :: "item list \<Rightarrow> string set \<Rightarrow> item list \<Rightarrow> item list" where
  "deduplicate [] seen unique_items = unique_items"
| "deduplicate (item # rest) seen unique_items =
     (if url item \<notin> seen
      then deduplicate rest (insert (url item) seen) (unique_items @ [item])
      else deduplicate rest seen unique_items)"

text \<open>
  The truth value of \<^verbatim>\<open>og.get(key)\<close> and of an optional string: \<^verbatim>\<open>None\<close> and the
  empty string are falsy. \<open>py_get\<close> gives the value with the empty string for an
  absent key.
\<close>

definition py_get :: "string option \<Rightarrow> string" where
  "py_get v = (case v of None \<Rightarrow> [] | Some s \<Rightarrow> s)"

definition truthy :: "string option \<Rightarrow> bool" where
  "truthy v = (py_get v \<noteq> [])"

text \<open>The five conditional assignments after \<^verbatim>\<open>og = fetch_og_metadata(item["url"])\<close>.\<close>

definition fill_from_og :: "og_metadata \<Rightarrow> item \<Rightarrow> item" where
  "fill_from_og og item =
     (let item = (if preview_image_url item = [] \<and> truthy (og_image og)
                  then item\<lparr>preview_image_url := py_get (og_image og)\<rparr> else item);
          item = (if description item = [] \<and> truthy (og_description og)
                  then item\<lparr>description := take 500 (py_get (og_description og))\<rparr> else item);
          item = (if byline item = [] \<and> truthy (og_author og)
                  then item\<lparr>byline := py_get (og_author og)\<rparr> else item);
          item = (if \<not> truthy (publish_date item) \<and> truthy (og_published og)
                  then item\<lparr>publish_date := og_published og\<rparr> else item);
          item = (if truthy (og_title og) \<and> headline item = []
                  then item\<lparr>headline := py_get (og_title og)\<rparr> else item)
      in item)"

text \<open>
  The enrichment block of the item loop: the page is fetched only when enrichment is on
  and the preview image or the description is missing, and a pause follows.
\<close>

definition enrich_item :: "env \<Rightarrow> bool \<Rightarrow> item \<Rightarrow> history \<Rightarrow> item \<times> history" where
  "enrich_item E enrich item h =
     (if enrich \<and> (preview_image_url item = [] \<or> description item = []) then
        (case fetch_og_metadata E (url item) 15 h of
           (og, h1) \<Rightarrow> (fill_from_og og item, h1 @ [SleepUniform 500 1000]))
      else (item, h))"

text \<open>
  The keyword arguments of the call \<^verbatim>\<open>db.add_article(url=item["url"], ...)\<close> at the
  end of the loop body.
\<close>

definition article_kwargs :: "source \<Rightarrow> item \<Rightarrow> string \<Rightarrow> string option \<Rightarrow> (col \<rightharpoonup> pyval)" where
  "article_kwargs src item article_text local_img =
     [Url \<mapsto> PStr (url item),
      Source_slug \<mapsto> PStr (slug src),
      Source_name \<mapsto> PStr (name src),
      Category \<mapsto> PStr (category src),
      Headline \<mapsto> PStr (headline item),
      Byline \<mapsto> PStr (byline item),
      Description \<mapsto> PStr (description item),
      Article_text \<mapsto> PStr article_text,
      Publish_date \<mapsto> (case publish_date item of None \<Rightarrow> PNone | Some d \<Rightarrow> PStr d),
      Preview_image_url \<mapsto> PStr (preview_image_url item),
      Preview_image_local \<mapsto> PStr (py_get local_img),
      Tags \<mapsto> PList (tags item)]"

text \<open>
  The body of the loop \<^verbatim>\<open>for item in unique_items\<close>, on the running count, the store
  and the history. The call of the retriever is
  \<^verbatim>\<open>fetch_article_text_via_bypass(item["url"])\<close>: the timeout and \<^verbatim>\<open>prefer_playwright\<close>
  take their defaults, 30 and \<^verbatim>\<open>False\<close>.
\<close>

definition process_item ::
  "env \<Rightarrow> source \<Rightarrow> string \<Rightarrow> bool \<Rightarrow> item \<Rightarrow> nat \<times> database \<times> history \<Rightarrow> nat \<times> database \<times> history" where
  "process_item E src images_dir enrich item st =
     (case st of (new_count, db, h) \<Rightarrow>
      (let original_url = url item;
           (resolved_url, h) = resolve_redirect_url E original_url 10 h;
           item = (if resolved_url \<noteq> original_url then item\<lparr>url := resolved_url\<rparr> else item)
       in if url_exists db (url item) then (new_count, db, h)
          else
            (let (item, h) = enrich_item E enrich item h;
                 (article_text, h) =
                   (if bypass_paywall src then
                      (case fetch_article_text_via_bypass E (url item) 30 False h of
                         (text, h1) \<Rightarrow> (py_get text, h1 @ [SleepUniform 1500 2500]))
                    else ([], h));
                 (local_img, h) =
                   (if preview_image_url item \<noteq> []
                    then download_image E (preview_image_url item) images_dir (slug src) h
                    else (None, h));
                 (aid, db) = add_article (utc_now E h) (article_kwargs src item article_text local_img) db
             in case aid of
                  None \<Rightarrow> (new_count, db, h)
                | Some i \<Rightarrow> if i \<noteq> 0 then (new_count + 1, db, h) else (new_count, db, h))))"

fun process_items ::
  "env \<Rightarrow> source \<Rightarrow> string \<Rightarrow> bool \<Rightarrow> item list \<Rightarrow> nat \<times> database \<times> history \<Rightarrow> nat \<times> database \<times> history" where
  "process_items E src images_dir enrich [] st = st"
| "process_items E src images_dir enrich (item # rest) st =
     process_items E src images_dir enrich rest (process_item E src images_dir enrich item st)"

text \<open>
  \<^verbatim>\<open>process_source(source, db, images_dir, enrich=True)\<close> returns the count of new
  articles; the model returns the store and the history with it.
\<close>

definition process_source ::
  "env \<Rightarrow> (string \<Rightarrow> item list) \<Rightarrow> source \<Rightarrow> database \<Rightarrow> string \<Rightarrow> bool \<Rightarrow> history \<Rightarrow> nat \<times> database \<times> history" where
  "process_source E entries_of src db images_dir enrich h =
     (if rss_urls src = [] then (0, db, h)
      else
        (case fetch_all_feeds E entries_of (rss_urls src) [] h of
           (all_items, h1) \<Rightarrow>
             (let unique_items = deduplicate all_items {} []
              in process_items E src images_dir enrich unique_items (0, db, h1))))"

section \<open>Writes that the schema accepts\<close>



section \<open>An unchanged network\<close>


section \<open>Example inputs\<close>

text \<open>A network whose answers do not depend on the history or on the headers.\<close>

definition ok_page :: "string \<Rightarrow> string \<Rightarrow> response" where
  "ok_page link body = \<lparr>status_code = 200, resp_text = body, final_url = link, content = []\<rparr>"

definition static_env ::
  "(string \<Rightarrow> response option) \<Rightarrow> (string \<Rightarrow> string option) \<Rightarrow> (string \<Rightarrow> soup_view option) \<Rightarrow> env" where
  "static_env pages rendered soups =
     \<lparr>net = (\<lambda>h link hdrs. pages link),
      playwright_installed = True,
      browser_renders = (\<lambda>h link. rendered link),
      bs4_available = True,
      soup_view_of = soups,
      dateparser_parse = Some,
      path_exists = (\<lambda>h p. False),
      md5_hexdigest = (\<lambda>link. ''9e107d9d372bb6826bd81d3542a419d6''),
      path_suffix = (\<lambda>link. ''.jpg''),
      utc_now = (\<lambda>h. ''2024-01-01T00:00:00+00:00'')\<rparr>"

definition offline_env :: env where
  "offline_env = static_env (\<lambda>link. None) (\<lambda>link. None) (\<lambda>html. None)"

text \<open>A server that is rate limiting every client.\<close>

definition rate_limiting_server :: network where
  "rate_limiting_server h link hdrs =
     Some \<lparr>status_code = 429, resp_text = ''Too Many Requests'', final_url = link, content = []\<rparr>"

text \<open>Two feeds that carry the same link, under different headlines.\<close>

definition feed_item :: "string \<Rightarrow> string \<Rightarrow> item" where
  "feed_item link title =
     \<lparr>url = link, headline = title, description = ''from the feed'', byline = [],
      publish_date = None, preview_image_url = [], tags = []\<rparr>"

definition first_feed :: "item list" where
  "first_feed = [feed_item ''https://example.com/a'' ''first'', feed_item ''https://example.com/b'' ''other'']"

definition second_feed :: "item list" where
  "second_feed = [feed_item ''https://example.com/a'' ''second'']"

text \<open>A page with an Open Graph image.\<close>

definition og_page :: string where
  "og_page =
     ''<meta property='' @ [CHR 0x22] @ ''og:image'' @ [CHR 0x22] @ '' content='' @ [CHR 0x22] @
     ''https://x/y.jpg'' @ [CHR 0x22] @ ''>''"

definition og_env :: env where
  "og_env = static_env (\<lambda>link. Some (ok_page link og_page)) (\<lambda>link. None) (\<lambda>html. None)"









definition empty_db :: database where
  "empty_db = \<lparr>rows = [], last_id = 0\<rparr>"



text \<open>
  A page of plain text, exactly 500 characters long and without any tag: the
  container is the whole document, and its markup and its plain text are the page.
\<close>

definition borderline_page :: string where
  "borderline_page = replicate 500 (CHR ''a'')"

definition borderline_view :: soup_view where
  "borderline_view =
     \<lparr>container_html = borderline_page, container_text = borderline_page, paragraphs = []\<rparr>"

definition borderline_env :: env where
  "borderline_env =
     static_env (\<lambda>link. Some (ok_page link borderline_page)) (\<lambda>link. None)
       (\<lambda>html. if html = borderline_page then Some borderline_view else None)"

text \<open>
  A site that answers a request with a search engine referrer with the full article,
  one paragraph of 600 characters, and every other request with a page of 60
  paragraphs of 5 characters each: 720 characters of markup around 300 characters
  of text. Neither page has a container element. No browser is installed.
\<close>

definition short_paragraphs_page :: string where
  "short_paragraphs_page = concat (replicate 60 ''<p>aaaaa</p>'')"

definition short_paragraphs_view :: soup_view where
  "short_paragraphs_view =
     \<lparr>container_html = short_paragraphs_page,
      container_text = replicate 300 (CHR ''a''),
      paragraphs = replicate 60 (''<p>aaaaa</p>'', ''aaaaa'')\<rparr>"

definition long_article_page :: string where
  "long_article_page = ''<p>'' @ replicate 600 (CHR ''b'') @ ''</p>''"

definition long_article_view :: soup_view where
  "long_article_view =
     \<lparr>container_html = long_article_page,
      container_text = replicate 600 (CHR ''b''),
      paragraphs = [(long_article_page, replicate 600 (CHR ''b''))]\<rparr>"

definition referrer_env :: env where
  "referrer_env =
     (static_env (\<lambda>link. None) (\<lambda>link. None)
        (\<lambda>html. if html = short_paragraphs_page then Some short_paragraphs_view
                else if html = long_article_page then Some long_article_view
                else None))
     \<lparr>net := (\<lambda>h link hdrs. Some (ok_page link
         (if hdrs = headers_google then long_article_page else short_paragraphs_page))),
      playwright_installed := False\<rparr>"

text \<open>
  A paywalled site. Its feed has one entry. The plain request for the story gets a
  teaser, one paragraph of 600 characters; the headless browser gets the full
  article, one paragraph of 700 characters. Neither page has a container element, so
  the container is the whole document. The source has both discovery flags set.
\<close>

definition teaser_body :: string where
  "teaser_body = ''<p>'' @ replicate 600 (CHR ''t'') @ ''</p>''"

definition full_body :: string where
  "full_body = ''<p>'' @ replicate 700 (CHR ''f'') @ ''</p>''"

definition paywalled_feed :: string where
  "paywalled_feed =
     ''<rss><channel><item><title>Story</title><link>https://paper.example/story</link>'' @
     ''<description>from the feed</description></item></channel></rss>''"

definition paywalled_env :: env where
  "paywalled_env =
     static_env
       (\<lambda>link. Some (ok_page link
          (if link = ''https://paper.example/feed'' then paywalled_feed else teaser_body)))
       (\<lambda>link. Some full_body)
       (\<lambda>html.
          if html = teaser_body then
            Some \<lparr>container_html = teaser_body, container_text = replicate 600 (CHR ''t''),
                  paragraphs = [(teaser_body, replicate 600 (CHR ''t''))]\<rparr>
          else if html = full_body then
            Some \<lparr>container_html = full_body, container_text = replicate 700 (CHR ''f''),
                  paragraphs = [(full_body, replicate 700 (CHR ''f''))]\<rparr>
          else None)"

definition paywalled_source :: source where
  "paywalled_source =
     \<lparr>slug = ''paper'', name = ''The Paper'', category = ''local'',
      rss_urls = [''https://paper.example/feed''], bypass_paywall = True, prefer_playwright = True\<rparr>"

definition paywalled_entries :: "string \<Rightarrow> item list" where
  "paywalled_entries feed_text =
     (if feed_text = paywalled_feed then [feed_item ''https://paper.example/story'' ''Story'']
      else [])"

text \<open>
  A page that consists of one meta tag, written with the naming attribute first,
  \<^verbatim>\<open><meta attr="key" content="value">\<close>, or with the content attribute first,
  \<^verbatim>\<open><meta content="value" attr="key">\<close>.
\<close>

definition meta_tag :: "string \<Rightarrow> string \<Rightarrow> string \<Rightarrow> bool \<Rightarrow> string" where
  "meta_tag attr key val content_first =
     (if content_first
      then ''<meta content='' @ [CHR 0x22] @ val @ [CHR 0x22] @ '' '' @ attr @ ''='' @
           [CHR 0x22] @ key @ [CHR 0x22] @ ''>''
      else ''<meta '' @ attr @ ''='' @ [CHR 0x22] @ key @ [CHR 0x22] @ '' content='' @
           [CHR 0x22] @ val @ [CHR 0x22] @ ''>'')"

text \<open>
  The date parser on the one date of these pages: \<^verbatim>\<open>dateutil\<close> reads the final
  \<^verbatim>\<open>Z\<close> as UTC, and \<^verbatim>\<open>isoformat\<close> writes the offset out. No other string is given
  to the parser here.
\<close>

definition example_isoformat :: "string \<Rightarrow> string option" where
  "example_isoformat s =
     (if s = ''2024-01-01T00:00:00Z'' then Some ''2024-01-01T00:00:00+00:00'' else None)"

definition page_env :: "string \<Rightarrow> env" where
  "page_env page =
     (static_env (\<lambda>link. Some (ok_page link page)) (\<lambda>link. None) (\<lambda>html. None))
     \<lparr>dateparser_parse := example_isoformat\<rparr>"

section \<open>Properties of the retry loop\<close>

lemma fetch_attempts_rate_limited:
  "always_429 server link \<Longrightarrow> attempt + n = max_retries \<Longrightarrow>
   fetch_attempts server link hdrs timeout max_retries attempt h =
     (None, h @ rate_limited_events link hdrs timeout max_retries attempt n)"
proof (induction n arbitrary: attempt h)
  case 0
  then show ?case by (simp add: fetch_attempts.simps)
next
  case (Suc n)
  from Suc.prems(1) obtain resp where r: "server h link hdrs = Some resp" "status_code resp = 429"
    unfolding always_429_def by blast
  show ?case
  proof (cases "attempt < max_retries - 1")
    case True
    then have "Suc attempt + n = max_retries" using Suc.prems(2) by simp
    from Suc.IH[OF Suc.prems(1) this]
    show ?thesis using True r Suc.prems(2)
      by (subst fetch_attempts.simps) (simp add: httpx_get_def time_sleep_def)
  next
    case False
    then have "n = 0" using Suc.prems(2) by simp
    then show ?thesis using False r Suc.prems(2)
      by (subst fetch_attempts.simps) (simp add: httpx_get_def)
  qed
qed

lemma always_429_rate_limiting_server: "always_429 rate_limiting_server link"
  by (simp add: always_429_def rate_limiting_server_def)

text \<open>
  Claim C3 on the code. Against a server that answers 429 on every attempt,
  \<^verbatim>\<open>fetch_with_retry\<close> with its 3 attempts adds exactly these events to the history:
  a request, a pause of 2 seconds, a request, a pause of 4 seconds, a request. Then it
  returns \<open>None\<close>. The pauses are \<open>2 ^ (attempt + 1)\<close> seconds after attempts 0 and 1;
  after the third answer the function returns at once, so the pause of 8 seconds
  that its docstring lists is never taken.
\<close>

theorem fetch_with_retry_rate_limited:
  assumes "always_429 server link"
  shows "fetch_with_retry server link hdrs timeout 3 h =
           (None, h @ [Get link hdrs timeout, Sleep 2,
                       Get link hdrs timeout, Sleep 4,
                       Get link hdrs timeout])"
  unfolding fetch_with_retry_def
  using fetch_attempts_rate_limited[OF assms, of 0 3 3 hdrs timeout h]
  by (simp add: numeral_3_eq_3)

theorem fetch_with_retry_rate_limited_witness:
  "always_429 rate_limiting_server ''https://example.com/a'' \<and>
   fetch_with_retry rate_limiting_server ''https://example.com/a'' headers_standard 30 3 [] =
     (None, [Get ''https://example.com/a'' headers_standard 30, Sleep 2,
             Get ''https://example.com/a'' headers_standard 30, Sleep 4,
             Get ''https://example.com/a'' headers_standard 30])"
proof -
  have a: "always_429 rate_limiting_server ''https://example.com/a''"
    by (rule always_429_rate_limiting_server)
  show ?thesis
    using a fetch_with_retry_rate_limited [OF a, of headers_standard 30 "[]"] by simp
qed

section \<open>Properties of the URL resolution\<close>

lemma str_in_iff: "str_in p s \<longleftrightarrow> (\<exists>a b. s = a @ p @ b)"
proof (induction s)
  case Nil
  then show ?case by auto
next
  case (Cons c cs)
  show ?case
  proof
    assume "str_in p (c # cs)"
    then consider "prefix p (c # cs)" | "str_in p cs" by auto
    then show "\<exists>a b. c # cs = a @ p @ b"
    proof cases
      case 1
      then obtain b where "c # cs = p @ b" by (auto simp: prefix_def)
      then have "c # cs = [] @ p @ b" by simp
      then show ?thesis by blast
    next
      case 2
      then obtain a b where "cs = a @ p @ b" using Cons.IH by blast
      then have "c # cs = (c # a) @ p @ b" by simp
      then show ?thesis by blast
    qed
  next
    assume "\<exists>a b. c # cs = a @ p @ b"
    then obtain a b where ab: "c # cs = a @ p @ b" by blast
    show "str_in p (c # cs)"
    proof (cases a)
      case Nil
      then have "prefix p (c # cs)" using ab by (simp add: prefix_def)
      then show ?thesis by simp
    next
      case (Cons x a')
      then have "cs = a' @ p @ b" using ab by simp
      then have "str_in p cs" using Cons.IH by blast
      then show ?thesis by simp
    qed
  qed
qed

text \<open>
  Claim C10. A URL that does not contain \<^verbatim>\<open>news.google.com\<close> is returned as it is and
  the history is unchanged: no request is made. A URL that contains it is requested
  once, and when that request raises, the URL itself is returned.
\<close>

theorem resolve_redirect_url_only_google_news:
  "(\<not> (\<exists>a b. link = a @ ''news.google.com'' @ b) \<longrightarrow>
      resolve_redirect_url E link timeout h = (link, h)) \<and>
   ((\<exists>a b. link = a @ ''news.google.com'' @ b) \<and> net E h link mac_agent = None \<longrightarrow>
      resolve_redirect_url E link timeout h = (link, h @ [Get link mac_agent timeout]))"
  by (simp add: resolve_redirect_url_def str_in_iff httpx_get_def)

theorem resolve_redirect_url_only_google_news_witness:
  "resolve_redirect_url offline_env ''https://example.com/a'' 10 [] = (''https://example.com/a'', []) \<and>
   resolve_redirect_url offline_env ''https://news.google.com/rss/articles/CBMi'' 10 [] =
     (''https://news.google.com/rss/articles/CBMi'',
      [Get ''https://news.google.com/rss/articles/CBMi'' mac_agent 10])"
proof -
  have 1: "\<not> (\<exists>a b. ''https://example.com/a'' = a @ ''news.google.com'' @ b)"
    unfolding str_in_iff [symmetric] by simp
  have 2: "\<exists>a b. ''https://news.google.com/rss/articles/CBMi'' = a @ ''news.google.com'' @ b"
    unfolding str_in_iff [symmetric] by simp
  have 3: "net offline_env [] ''https://news.google.com/rss/articles/CBMi'' mac_agent = None"
    by (simp add: offline_env_def static_env_def)
  have 4: "resolve_redirect_url offline_env ''https://example.com/a'' 10 [] =
      (''https://example.com/a'', [])"
    using 1 resolve_redirect_url_only_google_news [of "''https://example.com/a''" offline_env 10 "[]"]
    by blast
  have 5: "resolve_redirect_url offline_env ''https://news.google.com/rss/articles/CBMi'' 10 [] =
      (''https://news.google.com/rss/articles/CBMi'',
       [] @ [Get ''https://news.google.com/rss/articles/CBMi'' mac_agent 10])"
    using 2 3 resolve_redirect_url_only_google_news
        [of "''https://news.google.com/rss/articles/CBMi''" offline_env 10 "[]"]
    by blast
  show ?thesis using 4 5 by simp
qed

section \<open>Properties of the deduplication\<close>

lemma deduplicate_acc: "deduplicate xs seen acc = acc @ deduplicate xs seen []"
proof (induction xs arbitrary: seen acc)
  case Nil
  then show ?case by simp
next
  case (Cons x xs)
  show ?case
  proof (cases "url x \<in> seen")
    case True
    then show ?thesis using Cons.IH[of seen acc] by simp
  next
    case False
    then show ?thesis
      using Cons.IH[of "insert (url x) seen" "acc @ [x]"] Cons.IH[of "insert (url x) seen" "[x]"]
      by simp
  qed
qed

lemma deduplicate_Cons:
  "deduplicate (x # xs) seen [] =
     (if url x \<in> seen then deduplicate xs seen [] else x # deduplicate xs (insert (url x) seen) [])"
  using deduplicate_acc[of xs "insert (url x) seen" "[x]"] by simp

lemma deduplicate_subseq: "subseq (deduplicate xs seen []) xs"
  by (induction xs arbitrary: seen)
     (auto simp add: deduplicate_Cons simp del: deduplicate.simps(2) intro: list_emb_Cons)

lemma deduplicate_urls: "url ` set (deduplicate xs seen []) = url ` set xs - seen"
  by (induction xs arbitrary: seen) (auto simp add: deduplicate_Cons simp del: deduplicate.simps(2))

lemma deduplicate_distinct: "distinct (map url (deduplicate xs seen []))"
proof (induction xs arbitrary: seen)
  case Nil
  then show ?case by simp
next
  case (Cons x xs)
  have "url x \<notin> url ` set (deduplicate xs (insert (url x) seen) [])"
    by (simp add: deduplicate_urls)
  then show ?case using Cons.IH by (simp add: deduplicate_Cons del: deduplicate.simps(2))
qed

lemma deduplicate_find:
  "find (\<lambda>c. url c = u) (deduplicate xs seen []) =
     (if u \<in> seen then None else find (\<lambda>c. url c = u) xs)"
proof (induction xs arbitrary: seen)
  case Nil
  then show ?case by simp
next
  case (Cons x xs)
  show ?case using Cons.IH[of seen] Cons.IH[of "insert (url x) seen"]
    by (auto simp add: deduplicate_Cons simp del: deduplicate.simps(2))
qed

lemma distinct_filter_one:
  "distinct (map f xs) \<Longrightarrow> u \<in> f ` set xs \<Longrightarrow> length (filter (\<lambda>c. f c = u) xs) = 1"
proof (induction xs)
  case Nil
  then show ?case by simp
next
  case (Cons x xs)
  show ?case
  proof (cases "f x = u")
    case True
    then have "filter (\<lambda>c. f c = u) xs = []" using Cons.prems(1)
      by (simp add: filter_empty_conv) (metis imageI)
    then show ?thesis using True by simp
  next
    case False
    then show ?thesis using Cons by auto
  qed
qed

text \<open>
  Claim C7. The deduplication step keeps a subsequence of the collected candidates
  (so their relative order is the order of discovery), no two survivors share a URL,
  the survivor for a URL is the first collected candidate with that URL, and every
  URL that was collected has exactly one survivor, in particular a URL that two feeds
  both contain.
\<close>

theorem deduplicate_first_occurrence:
  "subseq (deduplicate all_items {} []) all_items \<and>
   distinct (map url (deduplicate all_items {} [])) \<and>
   (\<forall>u. find (\<lambda>c. url c = u) (deduplicate all_items {} []) = find (\<lambda>c. url c = u) all_items) \<and>
   (\<forall>u \<in> url ` set all_items. length (filter (\<lambda>c. url c = u) (deduplicate all_items {} [])) = 1)"
proof -
  have "\<forall>u \<in> url ` set all_items. length (filter (\<lambda>c. url c = u) (deduplicate all_items {} [])) = 1"
  proof
    fix u assume "u \<in> url ` set all_items"
    then have "u \<in> url ` set (deduplicate all_items {} [])" by (simp add: deduplicate_urls)
    then show "length (filter (\<lambda>c. url c = u) (deduplicate all_items {} [])) = 1"
      using deduplicate_distinct[of all_items "{}"] by (rule distinct_filter_one[rotated])
  qed
  then show ?thesis
    using deduplicate_subseq[of all_items "{}"] deduplicate_distinct[of all_items "{}"]
    by (simp add: deduplicate_find)
qed

theorem deduplicate_first_occurrence_witness:
  "''https://example.com/a'' \<in> url ` set (first_feed @ second_feed) \<and>
   length (filter (\<lambda>c. url c = ''https://example.com/a'')
     (deduplicate (first_feed @ second_feed) {} [])) = 1 \<and>
   find (\<lambda>c. url c = ''https://example.com/a'') (deduplicate (first_feed @ second_feed) {} []) =
     Some (feed_item ''https://example.com/a'' ''first'')"
proof -
  have m: "''https://example.com/a'' \<in> url ` set (first_feed @ second_feed)"
    by (simp add: first_feed_def second_feed_def feed_item_def)
  have f: "find (\<lambda>c. url c = ''https://example.com/a'') (first_feed @ second_feed) =
      Some (feed_item ''https://example.com/a'' ''first'')"
    by (simp add: first_feed_def second_feed_def feed_item_def)
  have "length (filter (\<lambda>c. url c = ''https://example.com/a'')
      (deduplicate (first_feed @ second_feed) {} [])) = 1"
    using m deduplicate_first_occurrence [of "first_feed @ second_feed"] by blast
  moreover have "find (\<lambda>c. url c = ''https://example.com/a'')
      (deduplicate (first_feed @ second_feed) {} []) =
      find (\<lambda>c. url c = ''https://example.com/a'') (first_feed @ second_feed)"
    using deduplicate_first_occurrence [of "first_feed @ second_feed"] by blast
  ultimately show ?thesis using m f by simp
qed

section \<open>Properties of the enrichment\<close>

lemma fill_from_og_frame:
  "(preview_image_url item \<noteq> [] \<longrightarrow> preview_image_url (fill_from_og og item) = preview_image_url item) \<and>
   (description item \<noteq> [] \<longrightarrow> description (fill_from_og og item) = description item) \<and>
   (byline item \<noteq> [] \<longrightarrow> byline (fill_from_og og item) = byline item) \<and>
   (truthy (publish_date item) \<longrightarrow> publish_date (fill_from_og og item) = publish_date item) \<and>
   (headline item \<noteq> [] \<longrightarrow> headline (fill_from_og og item) = headline item) \<and>
   url (fill_from_og og item) = url item"
proof -
  define i1 where "i1 = (if preview_image_url item = [] \<and> truthy (og_image og)
                  then item\<lparr>preview_image_url := py_get (og_image og)\<rparr> else item)"
  define i2 where "i2 = (if description i1 = [] \<and> truthy (og_description og)
                  then i1\<lparr>description := take 500 (py_get (og_description og))\<rparr> else i1)"
  define i3 where "i3 = (if byline i2 = [] \<and> truthy (og_author og)
                  then i2\<lparr>byline := py_get (og_author og)\<rparr> else i2)"
  define i4 where "i4 = (if \<not> truthy (publish_date i3) \<and> truthy (og_published og)
                  then i3\<lparr>publish_date := og_published og\<rparr> else i3)"
  define i5 where "i5 = (if truthy (og_title og) \<and> headline i4 = []
                  then i4\<lparr>headline := py_get (og_title og)\<rparr> else i4)"
  have eq: "fill_from_og og item = i5"
    unfolding fill_from_og_def Let_def i5_def i4_def i3_def i2_def i1_def by (rule refl)
  have s1: "description i1 = description item" "byline i1 = byline item"
    "publish_date i1 = publish_date item" "headline i1 = headline item" "url i1 = url item"
    "preview_image_url item \<noteq> [] \<longrightarrow> preview_image_url i1 = preview_image_url item"
    by (simp_all add: i1_def)
  have s2: "preview_image_url i2 = preview_image_url i1" "byline i2 = byline i1"
    "publish_date i2 = publish_date i1" "headline i2 = headline i1" "url i2 = url i1"
    "description i1 \<noteq> [] \<longrightarrow> description i2 = description i1"
    by (simp_all add: i2_def)
  have s3: "preview_image_url i3 = preview_image_url i2" "description i3 = description i2"
    "publish_date i3 = publish_date i2" "headline i3 = headline i2" "url i3 = url i2"
    "byline i2 \<noteq> [] \<longrightarrow> byline i3 = byline i2"
    by (simp_all add: i3_def)
  have s4: "preview_image_url i4 = preview_image_url i3" "description i4 = description i3"
    "byline i4 = byline i3" "headline i4 = headline i3" "url i4 = url i3"
    "truthy (publish_date i3) \<longrightarrow> publish_date i4 = publish_date i3"
    by (simp_all add: i4_def)
  have s5: "preview_image_url i5 = preview_image_url i4" "description i5 = description i4"
    "byline i5 = byline i4" "publish_date i5 = publish_date i4" "url i5 = url i4"
    "headline i4 \<noteq> [] \<longrightarrow> headline i5 = headline i4"
    by (simp_all add: i5_def)
  show ?thesis unfolding eq using s1 s2 s3 s4 s5 by simp
qed

lemma take_og_page: "take 50000 og_page = og_page"
  by (simp add: og_page_def)

lemma scan_og_page:
  "scan_meta_tags Some og_page =
     \<lparr>og_image = Some ''https://x/y.jpg'', og_description = None, og_title = None,
      og_author = None, og_published = None\<rparr>"
  by code_simp

lemma enrich_og_page:
  "enrich_item og_env True (feed_item ''https://example.com/a'' ''first'') [] =
     ((feed_item ''https://example.com/a'' ''first'')\<lparr>preview_image_url := ''https://x/y.jpg''\<rparr>,
      [Get ''https://example.com/a'' mac_agent 15, SleepUniform 500 1000])"
  by (simp add: enrich_item_def fetch_og_metadata_def httpx_get_def og_env_def static_env_def
      ok_page_def take_og_page scan_og_page fill_from_og_def feed_item_def truthy_def py_get_def)

text \<open>
  Claim C8. The enrichment block changes a field of the candidate only when the field
  was empty: a preview image URL, description, byline, publish date or headline that
  the feed supplied is the same after the block, whatever the page says.
\<close>

theorem enrich_item_fills_only_empty:
  "enrich_item E enrich item h = (item', h') \<Longrightarrow>
   (preview_image_url item \<noteq> [] \<longrightarrow> preview_image_url item' = preview_image_url item) \<and>
   (description item \<noteq> [] \<longrightarrow> description item' = description item) \<and>
   (byline item \<noteq> [] \<longrightarrow> byline item' = byline item) \<and>
   (truthy (publish_date item) \<longrightarrow> publish_date item' = publish_date item) \<and>
   (headline item \<noteq> [] \<longrightarrow> headline item' = headline item)"
  using fill_from_og_frame[of item "fst (fetch_og_metadata E (url item) 15 h)"]
  by (cases "enrich \<and> (preview_image_url item = [] \<or> description item = [])")
     (auto simp: enrich_item_def split: prod.splits)

theorem enrich_item_fills_only_empty_witness:
  "enrich_item og_env True (feed_item ''https://example.com/a'' ''first'') [] =
     ((feed_item ''https://example.com/a'' ''first'')\<lparr>preview_image_url := ''https://x/y.jpg''\<rparr>,
      [Get ''https://example.com/a'' mac_agent 15, SleepUniform 500 1000]) \<and>
   description (fst (enrich_item og_env True (feed_item ''https://example.com/a'' ''first'') [])) =
     ''from the feed'' \<and>
   headline (fst (enrich_item og_env True (feed_item ''https://example.com/a'' ''first'') [])) =
     ''first''"
proof -
  let ?item = "feed_item ''https://example.com/a'' ''first''"
  let ?r = "enrich_item og_env True ?item []"
  have e: "?r = (fst ?r, snd ?r)" by simp
  have d: "description ?item \<noteq> []" "headline ?item \<noteq> []" "description ?item = ''from the feed''"
    "headline ?item = ''first''"
    by (simp_all add: feed_item_def)
  have "description (fst ?r) = ''from the feed''" "headline (fst ?r) = ''first''"
    using d enrich_item_fills_only_empty [OF e] by simp_all
  then show ?thesis using enrich_og_page by simp
qed

section \<open>Properties of the sanitizer\<close>






section \<open>Properties of the store\<close>















section \<open>Properties of the retrieval chain\<close>

lemma fetch_attempts_events:
  "fetch_attempts server link hdrs timeout max_retries attempt h = (r, h') \<Longrightarrow>
   \<exists>events. h' = h @ events \<and> (\<forall>e \<in> set events. e = Get link hdrs timeout \<or> (\<exists>n. e = Sleep n))"
proof (induction server link hdrs timeout max_retries attempt h rule: fetch_attempts.induct)
  case (1 server link hdrs timeout max_retries attempt h)
  show ?case
  proof (cases "attempt < max_retries")
    case False
    then have "h' = h" using "1.prems" by (simp add: fetch_attempts.simps)
    then show ?thesis by simp
  next
    case True
    let ?h1 = "h @ [Get link hdrs timeout]"
    let ?h2 = "time_sleep (2 ^ (attempt + 1)) ?h1"
    have g: "httpx_get server link timeout hdrs h = (server h link hdrs, ?h1)"
      by (simp add: httpx_get_def)
    consider (stop) "h' = ?h1"
      | (retry) "attempt < max_retries - 1"
          "fetch_attempts server link hdrs timeout max_retries (attempt + 1) ?h2 = (r, h')"
          "server h link hdrs = None \<or> (\<exists>resp. server h link hdrs = Some resp \<and> status_code resp = 429)"
      using "1.prems" True
      by (subst (asm) fetch_attempts.simps) (auto simp: g split: option.splits if_splits)
    then show ?thesis
    proof cases
      case stop
      then show ?thesis by simp
    next
      case retry
      from retry(3) obtain events where
        ev: "h' = ?h2 @ events" "\<forall>e \<in> set events. e = Get link hdrs timeout \<or> (\<exists>n. e = Sleep n)"
      proof
        assume n: "server h link hdrs = None"
        from "1.IH"(1)[OF True g[symmetric] n retry(1) retry(2)] show ?thesis
          using that by blast
      next
        assume "\<exists>resp. server h link hdrs = Some resp \<and> status_code resp = 429"
        then obtain resp where s: "server h link hdrs = Some resp" "status_code resp = 429" by blast
        from "1.IH"(2)[OF True g[symmetric] s(1) s(2) retry(1) retry(2)] show ?thesis
          using that by blast
      qed
      have "h' = h @ (Get link hdrs timeout # Sleep (2 ^ (attempt + 1)) # events)"
        using ev(1) by (simp add: time_sleep_def)
      moreover have "\<forall>e \<in> set (Get link hdrs timeout # Sleep (2 ^ (attempt + 1)) # events).
          e = Get link hdrs timeout \<or> (\<exists>n. e = Sleep n)"
        using ev(2) by simp
      ultimately show ?thesis by blast
    qed
  qed
qed

lemma fetch_with_retry_answered:
  "server h link hdrs = Some resp \<Longrightarrow> status_code resp \<noteq> 429 \<Longrightarrow>
   fetch_with_retry server link hdrs timeout 3 h = (Some resp, h @ [Get link hdrs timeout])"
  unfolding fetch_with_retry_def
  by (subst fetch_attempts.simps) (simp add: httpx_get_def)

lemma first_success_append:
  "first_success (before @ rest) h =
     (case first_success before h of
        (Some body, h1) \<Rightarrow> (Some body, h1)
      | (None, h1) \<Rightarrow> first_success rest h1)"
  by (induction before arbitrary: h) (auto split: prod.splits option.splits)

lemma bypass_is_first_success:
  "bs4_available E \<Longrightarrow>
   fetch_article_text_via_bypass E link timeout prefer h =
     first_success (retrieval_chain E link timeout prefer) h"
  by (cases "prefer")
     (simp_all add: fetch_article_text_via_bypass_def retrieval_chain_def
        split: prod.splits option.splits)

lemma fetch_and_extract_Some:
  "fetch_and_extract E u hdrs timeout g = (Some body, g') \<longleftrightarrow>
     (\<exists>resp. fetch_with_retry (net E) u hdrs timeout 3 g = (Some resp, g') \<and>
        status_code resp = 200 \<and> extract_article_text E (resp_text resp) = Some body \<and>
        500 < length body)"
  by (auto simp: fetch_and_extract_def split: prod.splits option.splits if_splits)

lemma fetch_and_extract_history:
  "snd (fetch_and_extract E u hdrs timeout g) = snd (fetch_with_retry (net E) u hdrs timeout 3 g)"
  by (auto simp: fetch_and_extract_def split: prod.splits option.splits if_splits)

lemma try_playwright_Some:
  "try_playwright E u timeout g = (Some body, g') \<longleftrightarrow>
     (playwright_installed E \<and>
      (\<exists>html. browser_renders E g u = Some html \<and> extract_article_text E html = Some body) \<and>
      500 < length body \<and> g' = g @ [Browser u timeout])"
  by (auto simp: try_playwright_def split: option.splits if_splits)

lemma bypass_direct_fetch:
  assumes "(if prefer then try_playwright E link timeout h else (None, h)) = (None, h0)"
    and "fetch_with_retry (net E) link headers_standard timeout 3 h0 = (Some resp, h1)"
    and "status_code resp = 200"
    and "extract_article_text E (resp_text resp) = Some body"
    and "length body > 500"
  shows "fetch_article_text_via_bypass E link timeout prefer h = (Some body, h1) \<and>
         (\<exists>events. h1 = h0 @ events \<and>
            (\<forall>e \<in> set events. e = Get link headers_standard timeout \<or> (\<exists>n. e = Sleep n)))"
proof -
  have bs4: "bs4_available E"
    using assms(4) by (auto simp: extract_article_text_def split: if_splits)
  have direct: "fetch_and_extract E link headers_standard timeout h0 = (Some body, h1)"
    using assms(2-5) by (simp add: fetch_and_extract_def)
  have "fetch_article_text_via_bypass E link timeout prefer h = (Some body, h1)"
    unfolding fetch_article_text_via_bypass_def using bs4 assms(1) direct by simp
  moreover have "\<exists>events. h1 = h0 @ events \<and>
      (\<forall>e \<in> set events. e = Get link headers_standard timeout \<or> (\<exists>n. e = Sleep n))"
    using assms(2) unfolding fetch_with_retry_def by (rule fetch_attempts_events)
  ultimately show ?thesis by blast
qed

text \<open>
  Claim C5, as the code has it. The retriever is the chain of the specification: it
  runs the strategies in order and returns the body of the first one that succeeds,
  with the history as that strategy left it, so that no later strategy is invoked;
  this holds wherever the chain is cut, for every strategy. A fetch strategy
  succeeds exactly when the answer has status 200 and the string that
  \<^verbatim>\<open>extract_article_text\<close> returns, the sanitized markup, has more than 500
  characters; with 500 characters or fewer it fails and the chain goes on. The
  browser strategy succeeds exactly when the rendered page gives such a string.
  In particular, when the direct fetch is reached and succeeds, its body is the
  result and the history ends with the requests and pauses of the direct fetch.
\<close>

theorem bypass_stops_at_first_success:
  "(bs4_available E \<longrightarrow>
      fetch_article_text_via_bypass E link timeout prefer h =
        first_success (retrieval_chain E link timeout prefer) h) \<and>
   (\<forall>before strategy rest h0 body h1.
      bs4_available E \<and>
      retrieval_chain E link timeout prefer = before @ strategy # rest \<and>
      first_success before h = (None, h0) \<and> strategy h0 = (Some body, h1) \<longrightarrow>
        fetch_article_text_via_bypass E link timeout prefer h = (Some body, h1)) \<and>
   (\<forall>u hdrs g body g'.
      fetch_and_extract E u hdrs timeout g = (Some body, g') \<longleftrightarrow>
        (\<exists>resp. fetch_with_retry (net E) u hdrs timeout 3 g = (Some resp, g') \<and>
           status_code resp = 200 \<and> extract_article_text E (resp_text resp) = Some body \<and>
           500 < length body)) \<and>
   (\<forall>u hdrs g resp g' body.
      fetch_with_retry (net E) u hdrs timeout 3 g = (Some resp, g') \<and>
      extract_article_text E (resp_text resp) = Some body \<and> length body \<le> 500 \<longrightarrow>
        fetch_and_extract E u hdrs timeout g = (None, g')) \<and>
   (\<forall>u g body g'.
      try_playwright E u timeout g = (Some body, g') \<longleftrightarrow>
        (playwright_installed E \<and>
         (\<exists>html. browser_renders E g u = Some html \<and> extract_article_text E html = Some body) \<and>
         500 < length body \<and> g' = g @ [Browser u timeout])) \<and>
   (\<forall>h0 resp h1 body.
      (if prefer then try_playwright E link timeout h else (None, h)) = (None, h0) \<and>
      fetch_with_retry (net E) link headers_standard timeout 3 h0 = (Some resp, h1) \<and>
      status_code resp = 200 \<and> extract_article_text E (resp_text resp) = Some body \<and>
      500 < length body \<longrightarrow>
        fetch_article_text_via_bypass E link timeout prefer h = (Some body, h1) \<and>
        (\<exists>events. h1 = h0 @ events \<and>
           (\<forall>e \<in> set events. e = Get link headers_standard timeout \<or> (\<exists>n. e = Sleep n))))"
proof -
  have c1: "bs4_available E \<longrightarrow>
      fetch_article_text_via_bypass E link timeout prefer h =
        first_success (retrieval_chain E link timeout prefer) h"
    by (simp add: bypass_is_first_success)
  have c2: "\<forall>before strategy rest h0 body h1.
      bs4_available E \<and>
      retrieval_chain E link timeout prefer = before @ strategy # rest \<and>
      first_success before h = (None, h0) \<and> strategy h0 = (Some body, h1) \<longrightarrow>
        fetch_article_text_via_bypass E link timeout prefer h = (Some body, h1)"
  proof (intro allI impI)
    fix before strategy rest h0 body h1
    assume a: "bs4_available E \<and>
        retrieval_chain E link timeout prefer = before @ strategy # rest \<and>
        first_success before h = (None, h0) \<and> strategy h0 = (Some body, h1)"
    then have "fetch_article_text_via_bypass E link timeout prefer h =
        first_success (before @ strategy # rest) h"
      by (simp add: bypass_is_first_success)
    also have "\<dots> = (Some body, h1)"
      using a by (simp add: first_success_append)
    finally show "fetch_article_text_via_bypass E link timeout prefer h = (Some body, h1)" .
  qed
  have c3: "\<forall>u hdrs g body g'.
      fetch_and_extract E u hdrs timeout g = (Some body, g') \<longleftrightarrow>
        (\<exists>resp. fetch_with_retry (net E) u hdrs timeout 3 g = (Some resp, g') \<and>
           status_code resp = 200 \<and> extract_article_text E (resp_text resp) = Some body \<and>
           500 < length body)"
    by (intro allI) (rule fetch_and_extract_Some)
  have c4: "\<forall>u hdrs g resp g' body.
      fetch_with_retry (net E) u hdrs timeout 3 g = (Some resp, g') \<and>
      extract_article_text E (resp_text resp) = Some body \<and> length body \<le> 500 \<longrightarrow>
        fetch_and_extract E u hdrs timeout g = (None, g')"
    by (auto simp: fetch_and_extract_def)
  have c5: "\<forall>u g body g'.
      try_playwright E u timeout g = (Some body, g') \<longleftrightarrow>
        (playwright_installed E \<and>
         (\<exists>html. browser_renders E g u = Some html \<and> extract_article_text E html = Some body) \<and>
         500 < length body \<and> g' = g @ [Browser u timeout])"
    by (intro allI) (rule try_playwright_Some)
  have c6: "\<forall>h0 resp h1 body.
      (if prefer then try_playwright E link timeout h else (None, h)) = (None, h0) \<and>
      fetch_with_retry (net E) link headers_standard timeout 3 h0 = (Some resp, h1) \<and>
      status_code resp = 200 \<and> extract_article_text E (resp_text resp) = Some body \<and>
      500 < length body \<longrightarrow>
        fetch_article_text_via_bypass E link timeout prefer h = (Some body, h1) \<and>
        (\<exists>events. h1 = h0 @ events \<and>
           (\<forall>e \<in> set events. e = Get link headers_standard timeout \<or> (\<exists>n. e = Sleep n)))"
  proof (intro allI impI)
    fix h0 resp h1 body
    assume "(if prefer then try_playwright E link timeout h else (None, h)) = (None, h0) \<and>
        fetch_with_retry (net E) link headers_standard timeout 3 h0 = (Some resp, h1) \<and>
        status_code resp = 200 \<and> extract_article_text E (resp_text resp) = Some body \<and>
        500 < length body"
    then show "fetch_article_text_via_bypass E link timeout prefer h = (Some body, h1) \<and>
          (\<exists>events. h1 = h0 @ events \<and>
             (\<forall>e \<in> set events. e = Get link headers_standard timeout \<or> (\<exists>n. e = Sleep n)))"
      using bypass_direct_fetch[of "prefer" E link timeout h h0 resp h1 body] by blast
  qed
  show ?thesis by (intro conjI) (fact c1 c2 c3 c4 c5 c6)+
qed

lemma extract_teaser: "extract_article_text paywalled_env teaser_body = Some teaser_body"
  by (simp add: extract_article_text_def paywalled_env_def static_env_def)

lemma full_body_not_teaser: "full_body \<noteq> teaser_body"
proof
  assume "full_body = teaser_body"
  then have "length full_body = length teaser_body" by simp
  then show False by (simp add: full_body_def teaser_body_def)
qed

lemma extract_full: "extract_article_text paywalled_env full_body = Some full_body"
  by (simp add: extract_article_text_def paywalled_env_def static_env_def full_body_not_teaser)

lemma paywalled_story:
  "net paywalled_env h ''https://paper.example/story'' hdrs =
     Some (ok_page ''https://paper.example/story'' teaser_body)"
  by (simp add: paywalled_env_def static_env_def)

theorem bypass_stops_at_first_success_witness:
  "fetch_article_text_via_bypass paywalled_env ''https://paper.example/story'' 30 False [] =
     (Some teaser_body, [Get ''https://paper.example/story'' headers_standard 30]) \<and>
   fetch_article_text_via_bypass paywalled_env ''https://paper.example/story'' 30 False [] =
     first_success (retrieval_chain paywalled_env ''https://paper.example/story'' 30 False) []"
proof -
  let ?link = "''https://paper.example/story''"
  let ?resp = "ok_page ?link teaser_body"
  have 0: "bs4_available paywalled_env" by (simp add: paywalled_env_def static_env_def)
  have 1: "(if False then try_playwright paywalled_env ?link 30 [] else (None, [])) = (None, [])"
    by simp
  have 2: "fetch_with_retry (net paywalled_env) ?link headers_standard 30 3 [] =
      (Some ?resp, [Get ?link headers_standard 30])"
    using fetch_with_retry_answered [of "net paywalled_env" "[]" ?link headers_standard ?resp 30]
    by (simp add: paywalled_story ok_page_def)
  have 3: "status_code ?resp = 200" by (simp add: ok_page_def)
  have 4: "extract_article_text paywalled_env (resp_text ?resp) = Some teaser_body"
    by (simp add: ok_page_def extract_teaser)
  have 5: "500 < length teaser_body" by (simp add: teaser_body_def)
  note t = bypass_stops_at_first_success [of paywalled_env ?link 30 False "[]"]
  have a: "fetch_article_text_via_bypass paywalled_env ?link 30 False [] =
      first_success (retrieval_chain paywalled_env ?link 30 False) []"
    using t 0 by blast
  have "fetch_article_text_via_bypass paywalled_env ?link 30 False [] =
      (Some teaser_body, [Get ?link headers_standard 30])"
    using t 1 2 3 4 5 by blast
  then show ?thesis using a by blast
qed

lemma extract_borderline:
  "extract_article_text borderline_env borderline_page = Some borderline_page"
  by (simp add: extract_article_text_def borderline_env_def static_env_def borderline_view_def
      borderline_page_def)

lemma fetch_and_extract_borderline:
  "fetch_and_extract borderline_env link hdrs timeout h = (None, h @ [Get link hdrs timeout])"
proof -
  have "fetch_with_retry (net borderline_env) link hdrs timeout 3 h =
      (Some (ok_page link borderline_page), h @ [Get link hdrs timeout])"
    by (rule fetch_with_retry_answered) (simp_all add: borderline_env_def static_env_def ok_page_def)
  moreover have "length borderline_page = 500" by (simp add: borderline_page_def)
  ultimately show ?thesis
    by (simp add: fetch_and_extract_def ok_page_def extract_borderline)
qed

lemma try_playwright_borderline:
  "try_playwright borderline_env link timeout h = (None, h @ [Browser link timeout])"
  by (simp add: try_playwright_def borderline_env_def static_env_def)

lemma headers_google_not_standard: "headers_standard \<noteq> headers_google"
proof
  assume "headers_standard = headers_google"
  then have "length headers_standard = length headers_google" by simp
  then show False by (simp add: headers_google_def)
qed

lemma length_short_paragraphs_page: "length short_paragraphs_page = 720"
  by (simp add: short_paragraphs_page_def length_concat sum_list_replicate)

lemma long_not_short_page: "long_article_page \<noteq> short_paragraphs_page"
proof
  assume "long_article_page = short_paragraphs_page"
  then have "length long_article_page = length short_paragraphs_page" by simp
  then show False by (simp add: length_short_paragraphs_page) (simp add: long_article_page_def)
qed

lemma referrer_env_fields:
  "bs4_available referrer_env" "\<not> playwright_installed referrer_env"
  "soup_view_of referrer_env short_paragraphs_page = Some short_paragraphs_view"
  "soup_view_of referrer_env long_article_page = Some long_article_view"
  "net referrer_env h link headers_standard = Some (ok_page link short_paragraphs_page)"
  "net referrer_env h link headers_google = Some (ok_page link long_article_page)"
  by (simp_all add: referrer_env_def static_env_def long_not_short_page headers_google_not_standard)

lemma extract_short_paragraphs:
  "extract_article_text referrer_env short_paragraphs_page = Some short_paragraphs_page"
  by (simp add: extract_article_text_def referrer_env_fields short_paragraphs_view_def)

lemma extract_long_article:
  "extract_article_text referrer_env long_article_page = Some long_article_page"
  by (simp add: extract_article_text_def referrer_env_fields long_article_view_def)

lemma fetch_and_extract_referrer_direct:
  "fetch_and_extract referrer_env link headers_standard 30 h =
     (Some short_paragraphs_page, h @ [Get link headers_standard 30])"
proof -
  have "fetch_with_retry (net referrer_env) link headers_standard 30 3 h =
      (Some (ok_page link short_paragraphs_page), h @ [Get link headers_standard 30])"
    by (rule fetch_with_retry_answered) (simp_all add: referrer_env_fields ok_page_def)
  then show ?thesis
    by (simp add: fetch_and_extract_def ok_page_def extract_short_paragraphs
        length_short_paragraphs_page)
qed

lemma fetch_and_extract_referrer_google:
  "fetch_and_extract referrer_env link headers_google 30 h =
     (Some long_article_page, h @ [Get link headers_google 30])"
proof -
  have "fetch_with_retry (net referrer_env) link headers_google 30 3 h =
      (Some (ok_page link long_article_page), h @ [Get link headers_google 30])"
    by (rule fetch_with_retry_answered) (simp_all add: referrer_env_fields ok_page_def)
  moreover have "500 < length long_article_page" by (simp add: long_article_page_def)
  ultimately show ?thesis
    by (simp add: fetch_and_extract_def ok_page_def extract_long_article)
qed

text \<open>
  Claim C5 as stated measures the plain text of the sanitized output and lets the
  chain stop at 500 characters. A page whose sanitized output and plain text are
  exactly 500 characters long does not stop the chain: every later strategy is
  invoked. And on the site of the referrer example the chain stops at the direct
  fetch, whose output has 720 characters of markup around only 300 characters of
  plain text; the first strategy whose plain text exceeds 500 characters, the fetch
  with the search engine referrer, is never invoked.
\<close>

theorem bypass_threshold_counterexample:
  "extract_article_text borderline_env borderline_page = Some borderline_page \<and>
   length borderline_page = 500 \<and>
   length (container_text borderline_view) = 500 \<and>
   fetch_article_text_via_bypass borderline_env ''https://example.com/a'' 30 False [] =
     (None,
      [Get ''https://example.com/a'' headers_standard 30,
       Get ''https://example.com/a'' headers_google 30,
       Get ''https://example.com/a'' headers_facebook 30,
       Get ''https://12ft.io/https://example.com/a'' headers_standard 30,
       Get ''https://removepaywalls.com/https://example.com/a'' headers_standard 30,
       Browser ''https://example.com/a'' 30]) \<and>
   length (container_text short_paragraphs_view) = 300 \<and>
   length short_paragraphs_page = 720 \<and>
   fetch_article_text_via_bypass referrer_env ''https://example.com/a'' 30 False [] =
     (Some short_paragraphs_page, [Get ''https://example.com/a'' headers_standard 30]) \<and>
   length (container_text long_article_view) = 600 \<and>
   fetch_and_extract referrer_env ''https://example.com/a'' headers_google 30
       [Get ''https://example.com/a'' headers_standard 30] =
     (Some long_article_page,
      [Get ''https://example.com/a'' headers_standard 30,
       Get ''https://example.com/a'' headers_google 30])"
proof -
  have "bs4_available borderline_env" by (simp add: borderline_env_def static_env_def)
  then have a: "fetch_article_text_via_bypass borderline_env ''https://example.com/a'' 30 False [] =
     (None,
      [Get ''https://example.com/a'' headers_standard 30,
       Get ''https://example.com/a'' headers_google 30,
       Get ''https://example.com/a'' headers_facebook 30,
       Get ''https://12ft.io/https://example.com/a'' headers_standard 30,
       Get ''https://removepaywalls.com/https://example.com/a'' headers_standard 30,
       Browser ''https://example.com/a'' 30])"
    by (simp add: fetch_article_text_via_bypass_def fetch_and_extract_borderline
        try_playwright_borderline)
  have b: "length borderline_page = 500" "length (container_text borderline_view) = 500"
    by (simp_all add: borderline_view_def borderline_page_def)
  have c: "fetch_article_text_via_bypass referrer_env ''https://example.com/a'' 30 False [] =
     (Some short_paragraphs_page, [Get ''https://example.com/a'' headers_standard 30])"
    by (simp add: fetch_article_text_via_bypass_def referrer_env_fields
        fetch_and_extract_referrer_direct)
  have d: "length (container_text short_paragraphs_view) = 300"
    "length (container_text long_article_view) = 600"
    by (simp_all add: short_paragraphs_view_def long_article_view_def)
  show ?thesis
    using a b c d
    by (simp add: extract_borderline length_short_paragraphs_page
        fetch_and_extract_referrer_google)
qed

section \<open>The retrieval flag of a source\<close>

lemma fetch_all_feeds_paywalled:
  "fetch_all_feeds paywalled_env paywalled_entries [''https://paper.example/feed''] [] [] =
     ([feed_item ''https://paper.example/story'' ''Story''],
      [Get ''https://paper.example/feed'' aggregator_agent 30])"
  by (simp add: fetch_feed_def httpx_get_def paywalled_env_def static_env_def paywalled_entries_def
      ok_page_def)

lemma retrieve_paywalled_direct:
  "fetch_article_text_via_bypass paywalled_env ''https://paper.example/story'' 30 False h =
     (Some teaser_body, h @ [Get ''https://paper.example/story'' headers_standard 30])"
proof -
  let ?link = "''https://paper.example/story''"
  have "fetch_with_retry (net paywalled_env) ?link headers_standard 30 3 h =
      (Some (ok_page ?link teaser_body), h @ [Get ?link headers_standard 30])"
    by (rule fetch_with_retry_answered) (simp_all add: paywalled_story ok_page_def)
  moreover have "length teaser_body > 500" by (simp add: teaser_body_def)
  ultimately have "fetch_and_extract paywalled_env ?link headers_standard 30 h =
      (Some teaser_body, h @ [Get ?link headers_standard 30])"
    by (simp add: fetch_and_extract_def ok_page_def extract_teaser)
  moreover have "bs4_available paywalled_env" by (simp add: paywalled_env_def static_env_def)
  ultimately show ?thesis by (simp add: fetch_article_text_via_bypass_def)
qed

lemma retrieve_paywalled_browser:
  "fetch_article_text_via_bypass paywalled_env ''https://paper.example/story'' 30 True h =
     (Some full_body, h @ [Browser ''https://paper.example/story'' 30])"
proof -
  have "length full_body > 500" by (simp add: full_body_def)
  moreover have "playwright_installed paywalled_env"
    "browser_renders paywalled_env h ''https://paper.example/story'' = Some full_body"
    by (simp_all add: paywalled_env_def static_env_def)
  ultimately have "try_playwright paywalled_env ''https://paper.example/story'' 30 h =
      (Some full_body, h @ [Browser ''https://paper.example/story'' 30])"
    by (simp add: try_playwright_def extract_full)
  moreover have "bs4_available paywalled_env" by (simp add: paywalled_env_def static_env_def)
  ultimately show ?thesis by (simp add: fetch_article_text_via_bypass_def)
qed

lemma process_item_paywalled:
  "process_item paywalled_env paywalled_source ''images'' False
     (feed_item ''https://paper.example/story'' ''Story'') (0, empty_db, h) =
   (1,
    \<lparr>rows = [\<lparr>row_id = 1, cells = bound_value (dump_lists
        ((article_kwargs paywalled_source (feed_item ''https://paper.example/story'' ''Story'')
            teaser_body None)(Discovered_at \<mapsto> PStr ''2024-01-01T00:00:00+00:00'')))\<rparr>],
     last_id = 1\<rparr>,
    h @ [Get ''https://paper.example/story'' headers_standard 30, SleepUniform 1500 2500])"
proof -
  let ?item = "feed_item ''https://paper.example/story'' ''Story''"
  have r: "resolve_redirect_url paywalled_env ''https://paper.example/story'' 10 h =
      (''https://paper.example/story'', h)"
    by (simp add: resolve_redirect_url_def)
  have e: "\<not> url_exists empty_db link" for link
    by (simp add: url_exists_def empty_db_def)
  have n: "enrich_item paywalled_env False ?item h = (?item, h)" for h
    by (simp add: enrich_item_def)
  have u: "url ?item = ''https://paper.example/story''" "preview_image_url ?item = []"
    by (simp_all add: feed_item_def)
  have b: "bypass_paywall paywalled_source" "slug paywalled_source = ''paper''"
    by (simp_all add: paywalled_source_def)
  have t: "utc_now paywalled_env h = ''2024-01-01T00:00:00+00:00''" for h
    by (simp add: paywalled_env_def static_env_def)
  have k: "article_kwargs paywalled_source ?item teaser_body None Discovered_at = None"
    by (simp add: article_kwargs_def)
  have a: "add_article ''2024-01-01T00:00:00+00:00''
      (article_kwargs paywalled_source ?item teaser_body None) empty_db =
    (Some 1,
     \<lparr>rows = [\<lparr>row_id = 1, cells = bound_value (dump_lists
        ((article_kwargs paywalled_source ?item teaser_body None)
           (Discovered_at \<mapsto> PStr ''2024-01-01T00:00:00+00:00'')))\<rparr>],
      last_id = 1\<rparr>)"
    unfolding add_article_def Let_def
    by (simp add: k)
       (simp add: insert_or_ignore_def next_id_def empty_db_def all_cols_def is_list_def
          dump_lists_def bound_value_def article_kwargs_def split: option.splits)
  show ?thesis
    by (simp add: process_item_def Let_def r e n u b t retrieve_paywalled_direct a py_get_def)
qed

lemma process_source_paywalled:
  "process_source paywalled_env paywalled_entries paywalled_source empty_db ''images'' False [] =
    (1,
     \<lparr>rows = [\<lparr>row_id = 1, cells = bound_value (dump_lists
        ((article_kwargs paywalled_source (feed_item ''https://paper.example/story'' ''Story'')
            teaser_body None)(Discovered_at \<mapsto> PStr ''2024-01-01T00:00:00+00:00'')))\<rparr>],
      last_id = 1\<rparr>,
     [Get ''https://paper.example/feed'' aggregator_agent 30,
      Get ''https://paper.example/story'' headers_standard 30,
      SleepUniform 1500 2500])"
proof -
  let ?item = "feed_item ''https://paper.example/story'' ''Story''"
  have d: "deduplicate [?item] {} [] = [?item]" by simp
  have s: "rss_urls paywalled_source = [''https://paper.example/feed'']"
    by (simp add: paywalled_source_def)
  show ?thesis
    unfolding process_source_def
    by (simp add: s fetch_all_feeds_paywalled d process_item_paywalled
        del: deduplicate.simps fetch_all_feeds.simps)
qed

text \<open>
  Claim C4 on the paywalled source, whose \<^verbatim>\<open>bypass_paywall\<close> and
  \<^verbatim>\<open>prefer_playwright\<close> flags are both set. The pass never loads the page in the
  browser: it stores the teaser that the direct fetch returned. Had the retriever
  been called with the source's flag, at the history at which it is called, it would
  have run the browser first and returned the full article.
\<close>

theorem process_source_ignores_prefer_playwright:
  "bypass_paywall paywalled_source \<and> prefer_playwright paywalled_source \<and>
   fst (process_source paywalled_env paywalled_entries paywalled_source empty_db ''images'' False []) = 1 \<and>
   snd (snd (process_source paywalled_env paywalled_entries paywalled_source empty_db ''images'' False [])) =
     [Get ''https://paper.example/feed'' aggregator_agent 30,
      Get ''https://paper.example/story'' headers_standard 30,
      SleepUniform 1500 2500] \<and>
   map (\<lambda>r. cells r Article_text)
     (rows (fst (snd (process_source paywalled_env paywalled_entries paywalled_source empty_db
        ''images'' False [])))) = [Text teaser_body] \<and>
   fetch_article_text_via_bypass paywalled_env ''https://paper.example/story'' 30
     (prefer_playwright paywalled_source) [Get ''https://paper.example/feed'' aggregator_agent 30] =
     (Some full_body,
      [Get ''https://paper.example/feed'' aggregator_agent 30,
       Browser ''https://paper.example/story'' 30])"
proof -
  let ?item = "feed_item ''https://paper.example/story'' ''Story''"
  have s: "prefer_playwright paywalled_source" "bypass_paywall paywalled_source"
    by (simp_all add: paywalled_source_def)
  have c: "bound_value (dump_lists
        ((article_kwargs paywalled_source ?item teaser_body None)
           (Discovered_at \<mapsto> PStr ''2024-01-01T00:00:00+00:00''))) Article_text = Text teaser_body"
    by (simp add: bound_value_def dump_lists_def article_kwargs_def)
  show ?thesis
    unfolding process_source_paywalled using s c by (simp add: retrieve_paywalled_browser)
qed

section \<open>Properties of the source pass\<close>
















section \<open>The order of attributes in a meta tag\<close>

lemma fetch_og_metadata_page_env:
  "length page \<le> 50000 \<Longrightarrow>
   fst (fetch_og_metadata (page_env page) link 15 []) = scan_meta_tags example_isoformat page"
  by (simp add: fetch_og_metadata_def httpx_get_def page_env_def static_env_def ok_page_def)

lemma scan_image_tags:
  "og_image (scan_meta_tags example_isoformat (meta_tag ''property'' ''og:image'' ''https://x/y.jpg'' False)) =
     Some ''https://x/y.jpg''"
  "og_image (scan_meta_tags example_isoformat (meta_tag ''property'' ''og:image'' ''https://x/y.jpg'' True)) =
     Some ''https://x/y.jpg''"
  by code_simp+

lemma scan_author_tags:
  "og_author (scan_meta_tags example_isoformat (meta_tag ''name'' ''author'' ''Jane Doe'' False)) = Some ''Jane Doe''"
  "og_author (scan_meta_tags example_isoformat (meta_tag ''name'' ''author'' ''Jane Doe'' True)) = None"
  by code_simp+

lemma scan_published_tags:
  "og_published (scan_meta_tags example_isoformat
     (meta_tag ''property'' ''article:published_time'' ''2024-01-01T00:00:00Z'' False)) =
     Some ''2024-01-01T00:00:00+00:00''"
  "og_published (scan_meta_tags example_isoformat
     (meta_tag ''property'' ''article:published_time'' ''2024-01-01T00:00:00Z'' True)) = None"
  by code_simp+

text \<open>
  Claim C9 on pages of one meta tag. The image tag is found in both attribute orders.
  The author tag and the published-time tag are found only when the naming attribute
  comes before the content attribute: written the other way round, the enricher
  returns no author and no publish date.
\<close>

theorem fetch_og_metadata_attribute_order:
  "og_image (fst (fetch_og_metadata
       (page_env (meta_tag ''property'' ''og:image'' ''https://x/y.jpg'' False))
       ''https://example.com/a'' 15 [])) = Some ''https://x/y.jpg'' \<and>
   og_image (fst (fetch_og_metadata
       (page_env (meta_tag ''property'' ''og:image'' ''https://x/y.jpg'' True))
       ''https://example.com/a'' 15 [])) = Some ''https://x/y.jpg'' \<and>
   og_author (fst (fetch_og_metadata
       (page_env (meta_tag ''name'' ''author'' ''Jane Doe'' False))
       ''https://example.com/a'' 15 [])) = Some ''Jane Doe'' \<and>
   og_author (fst (fetch_og_metadata
       (page_env (meta_tag ''name'' ''author'' ''Jane Doe'' True))
       ''https://example.com/a'' 15 [])) = None \<and>
   og_published (fst (fetch_og_metadata
       (page_env (meta_tag ''property'' ''article:published_time'' ''2024-01-01T00:00:00Z'' False))
       ''https://example.com/a'' 15 [])) = Some ''2024-01-01T00:00:00+00:00'' \<and>
   og_published (fst (fetch_og_metadata
       (page_env (meta_tag ''property'' ''article:published_time'' ''2024-01-01T00:00:00Z'' True))
       ''https://example.com/a'' 15 [])) = None"
proof -
  have "length (meta_tag ''property'' ''og:image'' ''https://x/y.jpg'' b) \<le> 50000"
    "length (meta_tag ''name'' ''author'' ''Jane Doe'' b) \<le> 50000"
    "length (meta_tag ''property'' ''article:published_time'' ''2024-01-01T00:00:00Z'' b) \<le> 50000"
    for b
    by (simp_all add: meta_tag_def)
  then show ?thesis
    by (simp add: fetch_og_metadata_page_env scan_image_tags scan_author_tags scan_published_tags)
qed

end
